theory Spec2Isabelle
  imports Complex_Main "HOL-Library.Multiset"
begin

section \<open>JavaScript values\<close>

text \<open>
  The memory manager of \<^verbatim>\<open>src/memory/MemoryManager.ts\<close> works on untyped objects
  (\<^verbatim>\<open>any\<close>). Property values that the manager compares with \<^verbatim>\<open>===\<close> or tests for
  truthiness are modelled by \<open>jsval\<close>. JavaScript numbers are modelled by the reals (every
  finite double is a real; \<^verbatim>\<open>NaN\<close> and the infinities are excluded, and arithmetic is
  exact). A \<^verbatim>\<open>Date\<close> is its time value in milliseconds. \<open>JObject\<close> stands for any
  other object or array; the identity of such objects is not tracked.
\<close>

datatype jsval = JUndefined | JNull | JBool bool | JNum real | JStr string | JDate int | JObject

type_synonym props = "(string \<times> jsval) list"

fun truthy :: "jsval \<Rightarrow> bool" where
  "truthy JUndefined = False"
| "truthy JNull = False"
| "truthy (JBool b) = b"
| "truthy (JNum r) = (r \<noteq> 0)"
| "truthy (JStr s) = (s \<noteq> [])"
| "truthy (JDate t) = True"
| "truthy JObject = True"

text \<open>
  Strict equality \<^verbatim>\<open>===\<close>: by value on primitives, by identity on objects. A stored
  object and a query value are taken to be different objects.
\<close>

fun strict_eq :: "jsval \<Rightarrow> jsval \<Rightarrow> bool" where
  "strict_eq JUndefined JUndefined = True"
| "strict_eq JNull JNull = True"
| "strict_eq (JBool a) (JBool b) = (a = b)"
| "strict_eq (JNum a) (JNum b) = (a = b)"
| "strict_eq (JStr a) (JStr b) = (a = b)"
| "strict_eq _ _ = False"

definition prop_of :: "props \<Rightarrow> string \<Rightarrow> jsval" where
  "prop_of ps k = (case map_of ps k of Some v \<Rightarrow> v | None \<Rightarrow> JUndefined)"

definition opt_str :: "string option \<Rightarrow> jsval" where
  "opt_str s = (case s of Some v \<Rightarrow> JStr v | None \<Rightarrow> JUndefined)"

definition opt_num :: "real option \<Rightarrow> jsval" where
  "opt_num s = (case s of Some v \<Rightarrow> JNum v | None \<Rightarrow> JUndefined)"

text \<open>
  Strings that the manager builds by serialising a value (\<^verbatim>\<open>JSON.stringify(ctx)\<close>,
  \<^verbatim>\<open>`average_impact:${avgImpact}`\<close>) are kept symbolic: number formatting is not modelled.
\<close>

datatype jstext = Literal string | JSON_stringify "props option" | Average_impact real

section \<open>Data model\<close>

text \<open>
  Modelled from the spec: the module \<^verbatim>\<open>../types\<close> (the interfaces \<^verbatim>\<open>AgentMemory\<close>,
  \<^verbatim>\<open>LearningPattern\<close>, \<^verbatim>\<open>KnowledgeNode\<close>, \<^verbatim>\<open>Relationship\<close>, ...) is not among the sources.
  The records below carry the fields that the manager reads or writes and that section 3 of
  the specification lists; \<open>_rest\<close> holds the remaining own properties of an entry that a
  caller supplies.
\<close>

record message =
  msg_id :: string
  msg_content :: string
  msg_timestamp :: int
  msg_metadata :: "props option"

record conversationContext =
  ctx_leadId :: string
  priority :: real
  messages :: "message list"
  ctx_rest :: props

record lead =
  lead_id :: string
  score :: real
  lead_rest :: props

record agentAction =
  act_agentId :: string
  act_timestamp :: int
  act_rest :: props

record interaction =
  int_id :: string
  int_customerId :: string
  int_agentId :: string
  int_type :: string
  int_content :: string
  int_outcome :: string
  int_sentiment :: real
  int_timestamp :: int
  int_metadata :: "props option"
  int_rest :: props

record preferences =
  communicationChannel :: "string list"
  contentTypes :: "string list"
  frequency :: string
  topics :: "string list"
  timezone :: string

record customerProfile =
  prof_id :: string
  prof_email :: string
  prof_name :: string
  interactionHistory :: "interaction list"
  segmentTags :: "string list"
  lifetimeValue :: real
  lastEngagement :: int
  company :: "string option"
  industry :: "string option"
  prof_preferences :: preferences

record learningPattern =
  pat_id :: string
  pattern :: string
  pat_confidence :: real
  applications :: real
  successRate :: real
  lastUsed :: int
  pat_context :: "jstext list"

record decisionOutcome =
  decision :: "string option"
  actionType :: "string option"
  success :: bool
  impact :: "real option"
  dec_rest :: props

record contextualLearning =
  cl_id :: string
  cl_context :: string
  cl_learning :: string
  cl_confidence :: real
  cl_applications :: real
  cl_timestamp :: int

record knowledgeNode =
  node_id :: string
  concept :: string
  description :: string
  node_relationships :: "string list"
  node_confidence :: real
  lastUpdated :: int

record relMetadata =
  createdAt :: int
  meta_agentId :: string

record relationship =
  rel_id :: string
  source :: string
  target :: string
  rel_type :: string
  strength :: real
  rel_metadata :: "relMetadata option"

text \<open>What a caller may pass as \<^verbatim>\<open>data.data\<close>: an entry of one of the shapes above, or any other object.\<close>

datatype payload =
    PContext conversationContext
  | PLead lead
  | PAction agentAction
  | PInteraction interaction
  | PProfile customerProfile
  | PPattern learningPattern
  | PDecision decisionOutcome
  | PLearning contextualLearning
  | PNode knowledgeNode
  | PRelationship relationship
  | PObject props

text \<open>Property access \<^verbatim>\<open>data[key]\<close> on a stored entry.\<close>

fun get_prop :: "payload \<Rightarrow> string \<Rightarrow> jsval" where
  "get_prop (PContext c) k =
     (if k = ''leadId'' then JStr (ctx_leadId c)
      else if k = ''priority'' then JNum (priority c)
      else if k = ''messages'' then JObject
      else prop_of (ctx_rest c) k)"
| "get_prop (PLead l) k =
     (if k = ''id'' then JStr (lead_id l)
      else if k = ''score'' then JNum (score l)
      else prop_of (lead_rest l) k)"
| "get_prop (PAction a) k =
     (if k = ''agentId'' then JStr (act_agentId a)
      else if k = ''timestamp'' then JDate (act_timestamp a)
      else prop_of (act_rest a) k)"
| "get_prop (PInteraction i) k =
     (if k = ''id'' then JStr (int_id i)
      else if k = ''customerId'' then JStr (int_customerId i)
      else if k = ''agentId'' then JStr (int_agentId i)
      else if k = ''type'' then JStr (int_type i)
      else if k = ''content'' then JStr (int_content i)
      else if k = ''outcome'' then JStr (int_outcome i)
      else if k = ''sentiment'' then JNum (int_sentiment i)
      else if k = ''timestamp'' then JDate (int_timestamp i)
      else if k = ''metadata'' then (case int_metadata i of Some _ \<Rightarrow> JObject | None \<Rightarrow> JUndefined)
      else prop_of (int_rest i) k)"
| "get_prop (PProfile p) k =
     (if k = ''id'' then JStr (prof_id p)
      else if k = ''email'' then JStr (prof_email p)
      else if k = ''name'' then JStr (prof_name p)
      else if k = ''interactionHistory'' then JObject
      else if k = ''segmentTags'' then JObject
      else if k = ''lifetimeValue'' then JNum (lifetimeValue p)
      else if k = ''lastEngagement'' then JDate (lastEngagement p)
      else if k = ''company'' then opt_str (company p)
      else if k = ''industry'' then opt_str (industry p)
      else if k = ''preferences'' then JObject
      else JUndefined)"
| "get_prop (PPattern p) k =
     (if k = ''id'' then JStr (pat_id p)
      else if k = ''pattern'' then JStr (pattern p)
      else if k = ''confidence'' then JNum (pat_confidence p)
      else if k = ''applications'' then JNum (applications p)
      else if k = ''successRate'' then JNum (successRate p)
      else if k = ''lastUsed'' then JDate (lastUsed p)
      else if k = ''context'' then JObject
      else JUndefined)"
| "get_prop (PDecision d) k =
     (if k = ''decision'' then opt_str (decision d)
      else if k = ''actionType'' then opt_str (actionType d)
      else if k = ''success'' then JBool (success d)
      else if k = ''impact'' then opt_num (impact d)
      else prop_of (dec_rest d) k)"
| "get_prop (PLearning l) k =
     (if k = ''id'' then JStr (cl_id l)
      else if k = ''context'' then JStr (cl_context l)
      else if k = ''learning'' then JStr (cl_learning l)
      else if k = ''confidence'' then JNum (cl_confidence l)
      else if k = ''applications'' then JNum (cl_applications l)
      else if k = ''timestamp'' then JDate (cl_timestamp l)
      else JUndefined)"
| "get_prop (PNode n) k =
     (if k = ''id'' then JStr (node_id n)
      else if k = ''concept'' then JStr (concept n)
      else if k = ''description'' then JStr (description n)
      else if k = ''relationships'' then JObject
      else if k = ''confidence'' then JNum (node_confidence n)
      else if k = ''lastUpdated'' then JDate (lastUpdated n)
      else JUndefined)"
| "get_prop (PRelationship r) k =
     (if k = ''id'' then JStr (rel_id r)
      else if k = ''source'' then JStr (source r)
      else if k = ''target'' then JStr (target r)
      else if k = ''type'' then JStr (rel_type r)
      else if k = ''strength'' then JNum (strength r)
      else if k = ''metadata'' then (case rel_metadata r of Some _ \<Rightarrow> JObject | None \<Rightarrow> JUndefined)
      else JUndefined)"
| "get_prop (PObject ps) k = prop_of ps k"

record shortTermMemory =
  currentContext :: "conversationContext list"
  activeLeads :: "lead list"
  recentActions :: "agentAction list"
  workingMemory :: "string \<rightharpoonup> payload"

record longTermMemory =
  customerProfiles :: "payload list"
  campaignHistory :: "payload list"
  performanceMetrics :: "payload list"
  learningPatterns :: "learningPattern list"

record episodicMemory =
  successfulInteractions :: "interaction list"
  problemResolutions :: "payload list"
  decisionOutcomes :: "decisionOutcome list"
  contextualLearnings :: "contextualLearning list"

record semanticMemory =
  domainKnowledge :: "knowledgeNode list"
  relationships :: "relationship list"
  concepts :: "payload list"
  rules :: "payload list"

record agentMemory =
  shortTerm :: shortTermMemory
  longTerm :: longTermMemory
  episodic :: episodicMemory
  semantic :: semanticMemory

record manager =
  agentId :: string
  memory :: agentMemory

section \<open>Clock and identifiers\<close>

text \<open>
  \<^verbatim>\<open>new Date()\<close>, \<^verbatim>\<open>Date.now()\<close> and \<^verbatim>\<open>uuidv4()\<close> read the outside world. One call of a
  public method runs in an environment that fixes the clock reading of the call
  (milliseconds) and the identifier that each draw of \<^verbatim>\<open>uuidv4()\<close> returns; a draw is named
  by the place in the code that makes it.
\<close>

datatype draw =
    Envelope
  | Interaction_pattern string
  | Decision_pattern "string option"
  | Knowledge_node nat
  | Relationship_link nat nat
  | Interaction_summary string

record env =
  now :: int
  uuidv4 :: "draw \<Rightarrow> string"

abbreviation MAX_SHORT_TERM_ITEMS :: nat where "MAX_SHORT_TERM_ITEMS \<equiv> 100"
abbreviation CONSOLIDATION_THRESHOLD :: nat where "CONSOLIDATION_THRESHOLD \<equiv> 50"
abbreviation MEMORY_DECAY_FACTOR :: real where "MEMORY_DECAY_FACTOR \<equiv> 0.95"

definition ms_per_day :: real where
  "ms_per_day = 1000 * 60 * 60 * 24"

definition initializeMemory :: agentMemory where
  "initializeMemory =
    \<lparr> shortTerm = \<lparr> currentContext = [], activeLeads = [], recentActions = [],
                    workingMemory = Map.empty \<rparr>,
      longTerm = \<lparr> customerProfiles = [], campaignHistory = [], performanceMetrics = [],
                   learningPatterns = [] \<rparr>,
      episodic = \<lparr> successfulInteractions = [], problemResolutions = [], decisionOutcomes = [],
                   contextualLearnings = [] \<rparr>,
      semantic = \<lparr> domainKnowledge = [], relationships = [], concepts = [], rules = [] \<rparr> \<rparr>"

definition new_manager :: "string \<Rightarrow> manager" where
  "new_manager aid = \<lparr> agentId = aid, memory = initializeMemory \<rparr>"

section \<open>Capacity enforcement\<close>

text \<open>
  \<^verbatim>\<open>xs.sort((a, b) => key(b) - key(a))\<close>: \<^verbatim>\<open>Array.prototype.sort\<close> is a stable sort
  (ECMAScript 2019), here by descending key.
\<close>

definition js_sort_desc :: "('a \<Rightarrow> 'k::linordered_ab_group_add) \<Rightarrow> 'a list \<Rightarrow> 'a list" where
  "js_sort_desc key xs = sort_key (\<lambda>x. - key x) xs"

definition enforceShortTermLimits :: "agentMemory \<Rightarrow> agentMemory" where
  "enforceShortTermLimits m =
    (let cc = currentContext (shortTerm m);
         m1 = (if length cc > MAX_SHORT_TERM_ITEMS
               then m\<lparr>shortTerm := (shortTerm m)\<lparr>currentContext :=
                      take MAX_SHORT_TERM_ITEMS (js_sort_desc priority cc)\<rparr>\<rparr>
               else m);
         al = activeLeads (shortTerm m1);
         m2 = (if length al > MAX_SHORT_TERM_ITEMS
               then m1\<lparr>shortTerm := (shortTerm m1)\<lparr>activeLeads :=
                      take MAX_SHORT_TERM_ITEMS (js_sort_desc score al)\<rparr>\<rparr>
               else m1);
         ra = recentActions (shortTerm m2)
     in (if length ra > MAX_SHORT_TERM_ITEMS
         then m2\<lparr>shortTerm := (shortTerm m2)\<lparr>recentActions :=
                take MAX_SHORT_TERM_ITEMS (js_sort_desc act_timestamp ra)\<rparr>\<rparr>
         else m2))"

definition shouldConsolidate :: "agentMemory \<Rightarrow> bool" where
  "shouldConsolidate m =
    (length (currentContext (shortTerm m)) + length (activeLeads (shortTerm m))
       + length (recentActions (shortTerm m)) > CONSOLIDATION_THRESHOLD)"

section \<open>Routing of writes\<close>

text \<open>
  The argument \<^verbatim>\<open>data\<close> of \<^verbatim>\<open>store\<close> is an object \<^verbatim>\<open>{type, data, ...}\<close>; \<^verbatim>\<open>store\<close> wraps it
  as \<^verbatim>\<open>{id: uuidv4(), agentId, timestamp, ...data}\<close>, so a property of the argument
  replaces the property of the same name of the wrapper.
\<close>

record item =
  item_type :: string
  item_data :: payload
  item_rest :: props

record memoryItem =
  mi_id :: jsval
  mi_agentId :: jsval
  mi_timestamp :: jsval
  mi_type :: string
  mi_data :: payload
  mi_rest :: props

datatype tier = Short | Long | Episodic | Semantic

text \<open>
  The typed sub-collections (\<^verbatim>\<open>activeLeads: Lead[]\<close> and the like) receive \<^verbatim>\<open>item.data\<close>
  through \<^verbatim>\<open>any\<close>. The model has no entry of a foreign shape in a typed sub-collection:
  a write that would put one there is \<open>IllTyped\<close>.
\<close>

datatype error = IllTyped

definition make_memoryItem :: "env \<Rightarrow> string \<Rightarrow> item \<Rightarrow> memoryItem" where
  "make_memoryItem e aid d =
    \<lparr> mi_id = (case map_of (item_rest d) ''id'' of Some v \<Rightarrow> v
               | None \<Rightarrow> JStr (uuidv4 e Envelope)),
      mi_agentId = (case map_of (item_rest d) ''agentId'' of Some v \<Rightarrow> v | None \<Rightarrow> JStr aid),
      mi_timestamp = (case map_of (item_rest d) ''timestamp'' of Some v \<Rightarrow> v
                      | None \<Rightarrow> JDate (now e)),
      mi_type = item_type d,
      mi_data = item_data d,
      mi_rest = item_rest d \<rparr>"

definition storeShortTerm :: "agentMemory \<Rightarrow> memoryItem \<Rightarrow> error + agentMemory" where
  "storeShortTerm m it =
    (if mi_type it = ''conversation_context'' then
       (case mi_data it of
          PContext c \<Rightarrow> Inr (enforceShortTermLimits
            (m\<lparr>shortTerm := (shortTerm m)\<lparr>currentContext := currentContext (shortTerm m) @ [c]\<rparr>\<rparr>))
        | _ \<Rightarrow> Inl IllTyped)
     else if mi_type it = ''active_lead'' \<or> mi_type it = ''processed_lead'' then
       (case mi_data it of
          PLead l \<Rightarrow> Inr (enforceShortTermLimits
            (m\<lparr>shortTerm := (shortTerm m)\<lparr>activeLeads := activeLeads (shortTerm m) @ [l]\<rparr>\<rparr>))
        | _ \<Rightarrow> Inl IllTyped)
     else if mi_type it = ''recent_action'' then
       (case mi_data it of
          PAction a \<Rightarrow> Inr (enforceShortTermLimits
            (m\<lparr>shortTerm := (shortTerm m)\<lparr>recentActions := recentActions (shortTerm m) @ [a]\<rparr>\<rparr>))
        | _ \<Rightarrow> Inl IllTyped)
     else
       Inr (enforceShortTermLimits
         (m\<lparr>shortTerm := (shortTerm m)\<lparr>workingMemory :=
              (workingMemory (shortTerm m))(mi_type it \<mapsto> mi_data it)\<rparr>\<rparr>)))"

definition storeLongTerm :: "agentMemory \<Rightarrow> memoryItem \<Rightarrow> error + agentMemory" where
  "storeLongTerm m it =
    (if mi_type it = ''customer_profile'' then
       Inr (m\<lparr>longTerm := (longTerm m)\<lparr>customerProfiles :=
              customerProfiles (longTerm m) @ [mi_data it]\<rparr>\<rparr>)
     else if mi_type it = ''campaign'' then
       Inr (m\<lparr>longTerm := (longTerm m)\<lparr>campaignHistory :=
              campaignHistory (longTerm m) @ [mi_data it]\<rparr>\<rparr>)
     else if mi_type it = ''performance_metric'' then
       Inr (m\<lparr>longTerm := (longTerm m)\<lparr>performanceMetrics :=
              performanceMetrics (longTerm m) @ [mi_data it]\<rparr>\<rparr>)
     else if mi_type it = ''learning_pattern'' then
       (case mi_data it of
          PPattern p \<Rightarrow> Inr (m\<lparr>longTerm := (longTerm m)\<lparr>learningPatterns :=
              learningPatterns (longTerm m) @ [p]\<rparr>\<rparr>)
        | _ \<Rightarrow> Inl IllTyped)
     else Inr m)"

definition storeEpisodic :: "agentMemory \<Rightarrow> memoryItem \<Rightarrow> error + agentMemory" where
  "storeEpisodic m it =
    (if mi_type it = ''interaction'' \<or> mi_type it = ''successful_interaction'' then
       (case mi_data it of
          PInteraction i \<Rightarrow> Inr (m\<lparr>episodic := (episodic m)\<lparr>successfulInteractions :=
              successfulInteractions (episodic m) @ [i]\<rparr>\<rparr>)
        | _ \<Rightarrow> Inl IllTyped)
     else if mi_type it = ''problem_resolution'' then
       Inr (m\<lparr>episodic := (episodic m)\<lparr>problemResolutions :=
              problemResolutions (episodic m) @ [mi_data it]\<rparr>\<rparr>)
     else if mi_type it = ''decision_outcome'' \<or> mi_type it = ''learning_outcome'' then
       (case mi_data it of
          PDecision d \<Rightarrow> Inr (m\<lparr>episodic := (episodic m)\<lparr>decisionOutcomes :=
              decisionOutcomes (episodic m) @ [d]\<rparr>\<rparr>)
        | _ \<Rightarrow> Inl IllTyped)
     else if mi_type it = ''contextual_learning'' then
       (case mi_data it of
          PLearning l \<Rightarrow> Inr (m\<lparr>episodic := (episodic m)\<lparr>contextualLearnings :=
              contextualLearnings (episodic m) @ [l]\<rparr>\<rparr>)
        | _ \<Rightarrow> Inl IllTyped)
     else Inr m)"

definition storeSemantic :: "agentMemory \<Rightarrow> memoryItem \<Rightarrow> error + agentMemory" where
  "storeSemantic m it =
    (if mi_type it = ''domain_knowledge'' then
       (case mi_data it of
          PNode n \<Rightarrow> Inr (m\<lparr>semantic := (semantic m)\<lparr>domainKnowledge :=
              domainKnowledge (semantic m) @ [n]\<rparr>\<rparr>)
        | _ \<Rightarrow> Inl IllTyped)
     else if mi_type it = ''relationship'' then
       (case mi_data it of
          PRelationship r \<Rightarrow> Inr (m\<lparr>semantic := (semantic m)\<lparr>relationships :=
              relationships (semantic m) @ [r]\<rparr>\<rparr>)
        | _ \<Rightarrow> Inl IllTyped)
     else if mi_type it = ''concept'' then
       Inr (m\<lparr>semantic := (semantic m)\<lparr>concepts := concepts (semantic m) @ [mi_data it]\<rparr>\<rparr>)
     else if mi_type it = ''business_rule'' \<or> mi_type it = ''learning_pattern''
             \<or> mi_type it = ''optimization_strategy'' \<or> mi_type it = ''engagement_strategy'' then
       Inr (m\<lparr>semantic := (semantic m)\<lparr>rules := rules (semantic m) @ [mi_data it]\<rparr>\<rparr>)
     else Inr m)"

section \<open>Consolidation\<close>

definition consolidateShortToLong :: "env \<Rightarrow> string \<Rightarrow> agentMemory \<Rightarrow> agentMemory" where
  "consolidateShortToLong e aid m =
    (let importantContexts =
           filter (\<lambda>c. priority c > 7 \<or> length (messages c) > 10) (currentContext (shortTerm m));
         profiles = map (\<lambda>c. PProfile
           \<lparr> prof_id = ctx_leadId c, prof_email = [], prof_name = [],
             interactionHistory = map (\<lambda>msg.
               \<lparr> int_id = msg_id msg, int_customerId = ctx_leadId c, int_agentId = aid,
                 int_type = ''chat'', int_content = msg_content msg, int_outcome = ''neutral'',
                 int_sentiment = 0, int_timestamp = msg_timestamp msg,
                 int_metadata = msg_metadata msg, int_rest = [] \<rparr>) (messages c),
             segmentTags = [], lifetimeValue = 0, lastEngagement = now e,
             company = None, industry = None,
             prof_preferences = \<lparr> communicationChannel = [''email''], contentTypes = [''text''],
               frequency = ''weekly'', topics = [], timezone = ''UTC'' \<rparr> \<rparr>) importantContexts
     in m\<lparr> longTerm := (longTerm m)\<lparr>customerProfiles := customerProfiles (longTerm m) @ profiles\<rparr>,
           shortTerm := (shortTerm m)\<lparr>currentContext :=
             filter (\<lambda>c. priority c \<le> 7 \<and> length (messages c) \<le> 10)
               (currentContext (shortTerm m))\<rparr> \<rparr>)"

text \<open>
  A \<^verbatim>\<open>Map\<close> is an association list in insertion order with one pair per key:
  \<^verbatim>\<open>has\<close>, \<^verbatim>\<open>set\<close> of a new key (appended), and mutation of the value stored under a key.
\<close>

definition map_has :: "('k \<times> 'v) list \<Rightarrow> 'k \<Rightarrow> bool" where
  "map_has pm k = (k \<in> set (map fst pm))"

definition map_modify :: "'k \<Rightarrow> ('v \<Rightarrow> 'v) \<Rightarrow> ('k \<times> 'v) list \<Rightarrow> ('k \<times> 'v) list" where
  "map_modify k f pm = map (\<lambda>(k', v). if k' = k then (k', f v) else (k', v)) pm"

record patternData =
  pd_type :: string
  pd_outcome :: string
  pd_count :: nat
  pd_successCount :: nat
  pd_contexts :: "props option list"

definition interaction_key :: "interaction \<Rightarrow> string" where
  "interaction_key i = int_type i @ ''_'' @ int_outcome i"

definition record_interaction ::
  "(string \<times> patternData) list \<Rightarrow> interaction \<Rightarrow> (string \<times> patternData) list" where
  "record_interaction patternMap i =
    (let key = interaction_key i;
         pm1 = (if \<not> map_has patternMap key
                then patternMap @ [(key, \<lparr> pd_type = int_type i, pd_outcome = int_outcome i,
                                          pd_count = 0, pd_successCount = 0, pd_contexts = [] \<rparr>)]
                else patternMap)
     in map_modify key (\<lambda>p. p\<lparr> pd_count := pd_count p + 1,
            pd_successCount := (if int_outcome i = ''positive'' \<or> int_outcome i = ''conversion''
                                then pd_successCount p + 1 else pd_successCount p),
            pd_contexts := pd_contexts p @ [int_metadata i] \<rparr>) pm1)"

definition findInteractionPatterns :: "env \<Rightarrow> interaction list \<Rightarrow> learningPattern list" where
  "findInteractionPatterns e interactions =
    concat (map (\<lambda>(key, patternData).
        if pd_count patternData \<ge> 3
        then [\<lparr> pat_id = uuidv4 e (Interaction_pattern key),
                pattern = key,
                pat_confidence = real (pd_successCount patternData) / real (pd_count patternData),
                applications = real (pd_count patternData),
                successRate = real (pd_successCount patternData) / real (pd_count patternData),
                lastUsed = now e,
                pat_context = map JSON_stringify (pd_contexts patternData) \<rparr>]
        else [])
      (foldl record_interaction [] interactions))"

record decisionData =
  dd_count :: nat
  dd_successCount :: nat
  dd_impacts :: "real list"

text \<open>\<^verbatim>\<open>outcome.decision || outcome.actionType\<close>; \<open>None\<close> is \<^verbatim>\<open>undefined\<close>.\<close>

definition decision_key :: "decisionOutcome \<Rightarrow> string option" where
  "decision_key d =
    (case decision d of
       Some s \<Rightarrow> (if s \<noteq> [] then Some s else actionType d)
     | None \<Rightarrow> actionType d)"

definition record_decision ::
  "(string option \<times> decisionData) list \<Rightarrow> decisionOutcome \<Rightarrow> (string option \<times> decisionData) list" where
  "record_decision decisionMap d =
    (let key = decision_key d;
         dm1 = (if \<not> map_has decisionMap key
                then decisionMap @ [(key, \<lparr> dd_count = 0, dd_successCount = 0, dd_impacts = [] \<rparr>)]
                else decisionMap)
     in map_modify key (\<lambda>p.
          if success d \<or> (case impact d of Some x \<Rightarrow> x > 0 | None \<Rightarrow> False)
          then p\<lparr> dd_count := dd_count p + 1,
                 dd_successCount := dd_successCount p + 1,
                 dd_impacts := dd_impacts p @
                   [case impact d of Some x \<Rightarrow> (if x \<noteq> 0 then x else 1) | None \<Rightarrow> 1] \<rparr>
          else p\<lparr> dd_count := dd_count p + 1 \<rparr>) dm1)"

definition findDecisionPatterns :: "env \<Rightarrow> decisionOutcome list \<Rightarrow> learningPattern list" where
  "findDecisionPatterns e outcomes =
    concat (map (\<lambda>(key, patternData).
        if dd_count patternData \<ge> 2
        then (let avgImpact = (if length (dd_impacts patternData) > 0
                               then sum_list (dd_impacts patternData)
                                      / real (length (dd_impacts patternData))
                               else 0)
              in [\<lparr> pat_id = uuidv4 e (Decision_pattern key),
                     pattern = ''decision_'' @ (case key of Some k \<Rightarrow> k | None \<Rightarrow> ''undefined''),
                     pat_confidence = real (dd_successCount patternData) / real (dd_count patternData),
                     applications = real (dd_count patternData),
                     successRate = real (dd_successCount patternData) / real (dd_count patternData),
                     lastUsed = now e,
                     pat_context = [Average_impact avgImpact] \<rparr>])
        else [])
      (foldl record_decision [] outcomes))"

definition extractPatternsFromEpisodic :: "env \<Rightarrow> agentMemory \<Rightarrow> agentMemory" where
  "extractPatternsFromEpisodic e m =
    (let interactions = successfulInteractions (episodic m);
         outcomes = decisionOutcomes (episodic m);
         interactionPatterns = findInteractionPatterns e interactions;
         decisionPatterns = findDecisionPatterns e outcomes
     in m\<lparr>longTerm := (longTerm m)\<lparr>learningPatterns :=
            learningPatterns (longTerm m) @ interactionPatterns @ decisionPatterns\<rparr>\<rparr>)"

text \<open>
  \<^verbatim>\<open>toLowerCase\<close> on ASCII letters and \<^verbatim>\<open>split(' ')\<close>, which yields one word more than
  there are spaces (so the empty string is a word between two adjacent spaces).
\<close>

definition toLowerCase :: "string \<Rightarrow> string" where
  "toLowerCase s =
    map (\<lambda>c. case map_of (zip ''ABCDEFGHIJKLMNOPQRSTUVWXYZ'' ''abcdefghijklmnopqrstuvwxyz'') c of
               Some l \<Rightarrow> l | None \<Rightarrow> c) s"

fun split_space :: "string \<Rightarrow> string list" where
  "split_space [] = [[]]"
| "split_space (c # cs) =
     (if c = CHR '' '' then [] # split_space cs
      else (case split_space cs of w # ws \<Rightarrow> (c # w) # ws | [] \<Rightarrow> [[c]]))"

definition concept_words :: "knowledgeNode \<Rightarrow> string list" where
  "concept_words c = split_space (toLowerCase (concept c)) @ split_space (toLowerCase (description c))"

definition calculateConceptSimilarity :: "knowledgeNode \<Rightarrow> knowledgeNode \<Rightarrow> real" where
  "calculateConceptSimilarity concept1 concept2 =
    (let words1 = remdups (concept_words concept1);
         words2 = remdups (concept_words concept2);
         intersection = remdups (filter (\<lambda>word. word \<in> set words2) words1);
         unionWords = remdups (words1 @ words2)
     in real (length intersection) / real (length unionWords))"

fun bump_first :: "string \<Rightarrow> int \<Rightarrow> knowledgeNode list \<Rightarrow> knowledgeNode list" where
  "bump_first c t [] = []"
| "bump_first c t (n # ns) =
     (if concept n = c
      then n\<lparr> node_confidence := min (node_confidence n + 0.1) 1.0, lastUpdated := t \<rparr> # ns
      else n # bump_first c t ns)"

definition learn :: "env \<Rightarrow> knowledgeNode list \<Rightarrow> contextualLearning \<Rightarrow> knowledgeNode list" where
  "learn e nodes learning =
    (case find (\<lambda>node. concept node = cl_context learning) nodes of
       Some existingNode \<Rightarrow> bump_first (cl_context learning) (now e) nodes
     | None \<Rightarrow> nodes @
         [\<lparr> node_id = uuidv4 e (Knowledge_node (length nodes)),
            concept = cl_context learning,
            description = cl_learning learning,
            node_relationships = [],
            node_confidence = cl_confidence learning,
            lastUpdated = now e \<rparr>])"

definition pair_indices :: "nat \<Rightarrow> (nat \<times> nat) list" where
  "pair_indices n = concat (map (\<lambda>i. map (\<lambda>j. (i, j)) [Suc i ..< n]) [0 ..< n])"

definition connects :: "string \<Rightarrow> string \<Rightarrow> relationship \<Rightarrow> bool" where
  "connects a b rel = ((source rel = a \<and> target rel = b) \<or> (source rel = b \<and> target rel = a))"

definition link_step ::
  "env \<Rightarrow> string \<Rightarrow> knowledgeNode list \<Rightarrow> relationship list \<Rightarrow> nat \<times> nat \<Rightarrow> relationship list" where
  "link_step e aid cs rels ij =
    (case ij of (i, j) \<Rightarrow>
      (let similarity = calculateConceptSimilarity (cs ! i) (cs ! j) in
       if similarity > 0.6 then
         (let relationship =
                \<lparr> rel_id = uuidv4 e (Relationship_link i j),
                  source = node_id (cs ! i),
                  target = node_id (cs ! j),
                  rel_type = ''related_to'',
                  strength = similarity,
                  rel_metadata = Some \<lparr> createdAt = now e, meta_agentId = aid \<rparr> \<rparr>
          in case find (connects (source relationship) (target relationship)) rels of
               None \<Rightarrow> rels @ [relationship]
             | Some existingRelationship \<Rightarrow> rels)
       else rels))"

definition updateConceptRelationships :: "env \<Rightarrow> string \<Rightarrow> agentMemory \<Rightarrow> agentMemory" where
  "updateConceptRelationships e aid m =
    (let cs = domainKnowledge (semantic m)
     in m\<lparr>semantic := (semantic m)\<lparr>relationships :=
            foldl (link_step e aid cs) (relationships (semantic m)) (pair_indices (length cs))\<rparr>\<rparr>)"

definition updateSemanticKnowledge :: "env \<Rightarrow> string \<Rightarrow> agentMemory \<Rightarrow> agentMemory" where
  "updateSemanticKnowledge e aid m =
    (let recentLearnings =
           filter (\<lambda>learning. now e - cl_timestamp learning < 7 * 24 * 60 * 60 * 1000)
             (contextualLearnings (episodic m));
         m1 = m\<lparr>semantic := (semantic m)\<lparr>domainKnowledge :=
                foldl (learn e) (domainKnowledge (semantic m)) recentLearnings\<rparr>\<rparr>
     in updateConceptRelationships e aid m1)"

definition decay_pattern :: "int \<Rightarrow> learningPattern \<Rightarrow> learningPattern" where
  "decay_pattern t p =
    (let daysSinceUse = real_of_int (t - lastUsed p) / ms_per_day
     in if daysSinceUse > 30 then p\<lparr>pat_confidence := pat_confidence p * MEMORY_DECAY_FACTOR\<rparr>
        else p)"

definition decay_node :: "int \<Rightarrow> knowledgeNode \<Rightarrow> knowledgeNode" where
  "decay_node t n =
    (let daysSinceUpdate = real_of_int (t - lastUpdated n) / ms_per_day
     in if daysSinceUpdate > 60 then n\<lparr>node_confidence := node_confidence n * MEMORY_DECAY_FACTOR\<rparr>
        else n)"

definition applyMemoryDecay :: "env \<Rightarrow> agentMemory \<Rightarrow> agentMemory" where
  "applyMemoryDecay e m =
    m\<lparr> longTerm := (longTerm m)\<lparr>learningPatterns :=
          filter (\<lambda>p. pat_confidence p > 0.1)
            (map (decay_pattern (now e)) (learningPatterns (longTerm m)))\<rparr>,
       semantic := (semantic m)\<lparr>domainKnowledge :=
          map (decay_node (now e)) (domainKnowledge (semantic m))\<rparr> \<rparr>"

definition consolidate_memory :: "env \<Rightarrow> string \<Rightarrow> agentMemory \<Rightarrow> agentMemory" where
  "consolidate_memory e aid m =
    applyMemoryDecay e
      (updateSemanticKnowledge e aid
        (extractPatternsFromEpisodic e
          (consolidateShortToLong e aid m)))"

definition consolidate :: "env \<Rightarrow> manager \<Rightarrow> manager" where
  "consolidate e mgr = mgr\<lparr>memory := consolidate_memory e (agentId mgr) (memory mgr)\<rparr>"

section \<open>The public write path\<close>

definition route :: "tier \<Rightarrow> agentMemory \<Rightarrow> memoryItem \<Rightarrow> error + agentMemory" where
  "route t m it =
    (case t of
       Short \<Rightarrow> storeShortTerm m it
     | Long \<Rightarrow> storeLongTerm m it
     | Episodic \<Rightarrow> storeEpisodic m it
     | Semantic \<Rightarrow> storeSemantic m it)"

definition store :: "env \<Rightarrow> manager \<Rightarrow> tier \<Rightarrow> item \<Rightarrow> error + manager" where
  "store e mgr t d =
    (let memoryItem = make_memoryItem e (agentId mgr) d
     in case route t (memory mgr) memoryItem of
          Inl err \<Rightarrow> Inl err
        | Inr m \<Rightarrow>
            Inr (if shouldConsolidate m
                 then consolidate e (mgr\<lparr>memory := m\<rparr>)
                 else mgr\<lparr>memory := m\<rparr>))"

text \<open>A sequence of calls of \<^verbatim>\<open>store\<close>, each in its own environment; it stops at the first error.\<close>

fun store_all :: "manager \<Rightarrow> (env \<times> tier \<times> item) list \<Rightarrow> error + manager" where
  "store_all mgr [] = Inr mgr"
| "store_all mgr ((e, t, d) # ws) =
     (case store e mgr t d of Inl err \<Rightarrow> Inl err | Inr mgr' \<Rightarrow> store_all mgr' ws)"

section \<open>Retrieval and ranking\<close>

text \<open>
  A candidate as \<^verbatim>\<open>calculateRelevance\<close> reads it: \<^verbatim>\<open>result.data\<close>, \<^verbatim>\<open>result.type\<close>,
  \<^verbatim>\<open>result.timestamp\<close> (a \<^verbatim>\<open>Date\<close>, or absent) and \<^verbatim>\<open>result.agentId\<close>. A query is an object
  with arbitrary keys.
\<close>

record result =
  res_data :: "payload option"
  res_type :: jsval
  res_timestamp :: "int option"
  res_agentId :: jsval

record ranked =
  ranked_result :: result
  relevanceScore :: real

definition wrap :: "string \<Rightarrow> payload \<Rightarrow> result" where
  "wrap label entry =
    \<lparr> res_data = Some entry, res_type = JStr label, res_timestamp = None, res_agentId = JUndefined \<rparr>"

text \<open>
  \<^verbatim>\<open>workingMemory[query.type]\<close> is read for a string tag; a \<^verbatim>\<open>query.type\<close> that is not a
  string is taken to name no slot.
\<close>

definition retrieveShortTerm :: "agentMemory \<Rightarrow> props \<Rightarrow> result list" where
  "retrieveShortTerm m query =
    (if strict_eq (prop_of query ''type'') (JStr ''conversation_context'')
     then map (\<lambda>c. wrap ''context'' (PContext c)) (currentContext (shortTerm m)) else [])
    @ (if strict_eq (prop_of query ''type'') (JStr ''active_lead'') \<or> truthy (prop_of query ''leadId'')
       then map (\<lambda>l. wrap ''lead'' (PLead l))
              (filter (\<lambda>lead. \<not> truthy (prop_of query ''leadId'')
                               \<or> strict_eq (JStr (lead_id lead)) (prop_of query ''leadId''))
                 (activeLeads (shortTerm m)))
       else [])
    @ (if strict_eq (prop_of query ''type'') (JStr ''recent_action'') \<or> truthy (prop_of query ''agentId'')
       then map (\<lambda>a. wrap ''action'' (PAction a))
              (filter (\<lambda>action. \<not> truthy (prop_of query ''agentId'')
                                 \<or> strict_eq (JStr (act_agentId action)) (prop_of query ''agentId''))
                 (recentActions (shortTerm m)))
       else [])
    @ (case prop_of query ''type'' of
         JStr t \<Rightarrow> (if t \<noteq> [] then
                      (case workingMemory (shortTerm m) t of
                         Some v \<Rightarrow> [wrap t v]
                       | None \<Rightarrow> [])
                    else [])
       | _ \<Rightarrow> [])"

definition query_keys :: "props \<Rightarrow> string list" where
  "query_keys query = remdups (map fst query)"

definition field_matches :: "result \<Rightarrow> props \<Rightarrow> string \<Rightarrow> bool" where
  "field_matches r query key =
    (case res_data r of
       Some d \<Rightarrow> strict_eq (get_prop d key) (prop_of query key)
     | None \<Rightarrow> False)"

definition calculateRelevance :: "string \<Rightarrow> int \<Rightarrow> result \<Rightarrow> props \<Rightarrow> real" where
  "calculateRelevance aid t r query =
    (let score0 = 0.5;
         score1 = (if strict_eq (res_type r) (prop_of query ''type'') then score0 + 0.3 else score0);
         score2 = (case res_timestamp r of
                     Some ts \<Rightarrow>
                       (let age = t - ts;
                            daysSinceCreation = real_of_int age / ms_per_day
                        in score1 + max 0 (0.2 * exp (- daysSinceCreation / 30)))
                   | None \<Rightarrow> score1);
         score3 = (if strict_eq (res_agentId r) (JStr aid) then score2 + 0.1 else score2);
         score4 = foldl (\<lambda>s key. if field_matches r query key then s + 0.1 else s)
                    score3 (query_keys query)
     in min score4 1.0)"

definition rankByRelevance :: "string \<Rightarrow> int \<Rightarrow> result list \<Rightarrow> props \<Rightarrow> ranked list" where
  "rankByRelevance aid t results query =
    take 50 (js_sort_desc relevanceScore
      (map (\<lambda>r. \<lparr> ranked_result = r, relevanceScore = calculateRelevance aid t r query \<rparr>) results))"

text \<open>The branch \<^verbatim>\<open>'short'\<close> of \<^verbatim>\<open>retrieve\<close>.\<close>

definition retrieve_short :: "env \<Rightarrow> manager \<Rightarrow> props \<Rightarrow> ranked list" where
  "retrieve_short e mgr query =
    rankByRelevance (agentId mgr) (now e) (retrieveShortTerm (memory mgr) query) query"

section \<open>Compression\<close>

definition group_interaction ::
  "(string \<times> interaction list) list \<Rightarrow> interaction \<Rightarrow> (string \<times> interaction list) list" where
  "group_interaction groups i =
    (let key = interaction_key i;
         g1 = (if \<not> map_has groups key then groups @ [(key, [])] else groups)
     in map_modify key (\<lambda>g. g @ [i]) g1)"

definition groupSimilarInteractions :: "interaction list \<Rightarrow> (string \<times> interaction list) list" where
  "groupSimilarInteractions interactions = foldl group_interaction [] interactions"

record interactionSummary =
  sum_pattern :: string
  sum_confidence :: real
  averageSentiment :: real
  sum_frequency :: nat
  timespan_start :: int
  timespan_end :: int

text \<open>\<^verbatim>\<open>interactions[0].type\<close> throws on an empty array: \<open>None\<close>.\<close>

fun createInteractionSummary :: "interaction list \<Rightarrow> interactionSummary option" where
  "createInteractionSummary [] = None"
| "createInteractionSummary (i0 # rest) =
     Some \<lparr> sum_pattern = int_type i0 @ '' interactions with '' @ int_outcome i0 @ '' outcome'',
            sum_confidence = min (real (length (i0 # rest)) / 10) 0.9,
            averageSentiment = sum_list (map int_sentiment (i0 # rest)) / real (length (i0 # rest)),
            sum_frequency = length (i0 # rest),
            timespan_start = foldr min (map int_timestamp rest) (int_timestamp i0),
            timespan_end = foldr max (map int_timestamp rest) (int_timestamp i0) \<rparr>"

text \<open>
  One round of the loop over \<^verbatim>\<open>Object.entries(grouped)\<close>. A group of more than five
  interactions is not empty, so the summary exists.
\<close>

definition compress_group :: "env \<Rightarrow> agentMemory \<Rightarrow> string \<times> interaction list \<Rightarrow> agentMemory" where
  "compress_group e m kg =
    (case kg of (key, grp) \<Rightarrow>
      if length grp > 5 then
        (case createInteractionSummary grp of
           Some summary \<Rightarrow>
             m\<lparr>episodic := (episodic m)\<lparr>
                 successfulInteractions :=
                   filter (\<lambda>interaction. interaction \<notin> set grp)
                     (successfulInteractions (episodic m)),
                 contextualLearnings := contextualLearnings (episodic m) @
                   [\<lparr> cl_id = uuidv4 e (Interaction_summary key),
                      cl_context = key,
                      cl_learning = sum_pattern summary,
                      cl_confidence = sum_confidence summary,
                      cl_applications = real (length grp),
                      cl_timestamp = now e \<rparr>]\<rparr>\<rparr>
         | None \<Rightarrow> m)
      else m)"

definition compressEpisodicMemory :: "env \<Rightarrow> agentMemory \<Rightarrow> agentMemory" where
  "compressEpisodicMemory e m =
    foldl (compress_group e) m (groupSimilarInteractions (successfulInteractions (episodic m)))"

text \<open>
  \<^verbatim>\<open>mergeSemanticConcepts\<close> collects the index pairs of similar nodes first and then merges
  them from the last pair to the first, removing a node at each merge. A pair whose second
  index is no longer in the array reads \<^verbatim>\<open>undefined.confidence\<close>: the call throws, and
  the array stays as the merges before have left it.
\<close>

definition merge_pair :: "knowledgeNode list \<Rightarrow> nat \<times> nat \<Rightarrow> knowledgeNode list option" where
  "merge_pair cs ij =
    (case ij of (i, j) \<Rightarrow>
      if i < length cs \<and> j < length cs then
        (let concept1 = cs ! i;
             concept2 = cs ! j;
             ti = (if node_confidence concept1 \<ge> node_confidence concept2 then i else j);
             si = (if node_confidence concept1 \<ge> node_confidence concept2 then j else i);
             tgt = cs ! ti;
             src = cs ! si;
             merged = tgt\<lparr> description := description tgt @ '' '' @ description src,
                          node_confidence := max (node_confidence tgt) (node_confidence src),
                          node_relationships := node_relationships tgt @ node_relationships src \<rparr>;
             cs1 = cs[ti := merged]
         in Some (take (max i j) cs1 @ drop (Suc (max i j)) cs1))
      else None)"

fun merge_all :: "knowledgeNode list \<Rightarrow> (nat \<times> nat) list \<Rightarrow> knowledgeNode list \<times> bool" where
  "merge_all cs [] = (cs, True)"
| "merge_all cs (ij # rest) =
     (case merge_pair cs ij of
        Some cs' \<Rightarrow> merge_all cs' rest
      | None \<Rightarrow> (cs, False))"

datatype outcome = Returned agentMemory | TypeError agentMemory

definition mergeSemanticConcepts :: "agentMemory \<Rightarrow> outcome" where
  "mergeSemanticConcepts m =
    (let cs0 = domainKnowledge (semantic m);
         toMerge = filter (\<lambda>(i, j). calculateConceptSimilarity (cs0 ! i) (cs0 ! j) > 0.8)
                     (pair_indices (length cs0))
     in case merge_all cs0 (rev toMerge) of
          (cs, ok) \<Rightarrow>
            (let m' = m\<lparr>semantic := (semantic m)\<lparr>domainKnowledge := cs\<rparr>\<rparr>
             in if ok then Returned m' else TypeError m'))"

definition rel_key :: "relationship \<Rightarrow> string" where
  "rel_key rel = source rel @ ''_'' @ target rel @ ''_'' @ rel_type rel"

definition rel_reverseKey :: "relationship \<Rightarrow> string" where
  "rel_reverseKey rel = target rel @ ''_'' @ source rel @ ''_'' @ rel_type rel"

definition keep_unique ::
  "(string \<times> relationship) list \<Rightarrow> relationship \<Rightarrow> (string \<times> relationship) list" where
  "keep_unique uniqueRelationships rel =
    (if \<not> map_has uniqueRelationships (rel_key rel) \<and> \<not> map_has uniqueRelationships (rel_reverseKey rel)
     then uniqueRelationships @ [(rel_key rel, rel)]
     else uniqueRelationships)"

definition cleanupRelationships :: "agentMemory \<Rightarrow> agentMemory" where
  "cleanupRelationships m =
    (let conceptIds = set (map node_id (domainKnowledge (semantic m)));
         existing = filter (\<lambda>rel. source rel \<in> conceptIds \<and> target rel \<in> conceptIds)
                      (relationships (semantic m));
         uniqueRelationships = foldl keep_unique [] existing
     in m\<lparr>semantic := (semantic m)\<lparr>relationships := map snd uniqueRelationships\<rparr>\<rparr>)"

definition compressMemory :: "env \<Rightarrow> agentMemory \<Rightarrow> outcome" where
  "compressMemory e m =
    (case mergeSemanticConcepts (compressEpisodicMemory e m) of
       TypeError m' \<Rightarrow> TypeError m'
     | Returned m' \<Rightarrow> Returned (cleanupRelationships m'))"
section \<open>Observations and sample inputs\<close>



definition env0 :: env where
  "env0 = \<lparr> now = 0, uuidv4 = (\<lambda>d. ''00000000-0000-4000-8000-000000000000'') \<rparr>"

definition lead0 :: lead where
  "lead0 = \<lparr> lead_id = ''lead-0'', score = 10, lead_rest = [] \<rparr>"



text \<open>The candidates of a ranking, each with its score, in the order of the input.\<close>

definition scored :: "string \<Rightarrow> int \<Rightarrow> result list \<Rightarrow> props \<Rightarrow> ranked list" where
  "scored aid t results query =
    map (\<lambda>r. \<lparr> ranked_result = r, relevanceScore = calculateRelevance aid t r query \<rparr>) results"

definition note_query :: props where
  "note_query = [(''type'', JStr ''note'')]"

definition lead_candidate :: result where
  "lead_candidate = wrap ''lead'' (PLead lead0)"

definition note_candidate :: result where
  "note_candidate = wrap ''note'' (PObject [(''n'', JNum 1)])"


text \<open>
  Proof device: \<open>insert_after f x ys\<close> puts \<open>x\<close> behind the elements of \<open>ys\<close> whose key is at
  most its own, which is where a stable sort of \<open>ys @ [x]\<close> puts it.
\<close>

fun insert_after :: "('a \<Rightarrow> 'k::linorder) \<Rightarrow> 'a \<Rightarrow> 'a list \<Rightarrow> 'a list" where
  "insert_after f x [] = [x]"
| "insert_after f x (y # ys) = (if f y \<le> f x then y # insert_after f x ys else x # y # ys)"

text \<open>
  A call \<^verbatim>\<open>store('short', {type, data})\<close> that the router sends to \<open>activeLeads\<close>, and the
  leads that a sequence of such calls has written, in the order of the calls.
\<close>

fun routed_to_activeLeads :: "env \<times> tier \<times> item \<Rightarrow> bool" where
  "routed_to_activeLeads (e, t, d) =
    (t = Short \<and> (item_type d = ''active_lead'' \<or> item_type d = ''processed_lead'')
     \<and> (case item_data d of PLead l \<Rightarrow> True | _ \<Rightarrow> False))"

definition written_leads :: "(env \<times> tier \<times> item) list \<Rightarrow> lead list" where
  "written_leads ws = concat (map (\<lambda>(e, t, d). case item_data d of PLead l \<Rightarrow> [l] | _ \<Rightarrow> []) ws)"

definition lead_write :: "env \<times> tier \<times> item" where
  "lead_write = (env0, Short, \<lparr> item_type = ''active_lead'', item_data = PLead lead0, item_rest = [] \<rparr>)"

text \<open>
  A call \<^verbatim>\<open>store('episodic', {type, data})\<close> that the router sends to
  \<open>successfulInteractions\<close>, with an interaction of the given type and outcome; and the
  interactions that a sequence of such calls has written.
\<close>

fun stores_interaction :: "string \<Rightarrow> string \<Rightarrow> env \<times> tier \<times> item \<Rightarrow> bool" where
  "stores_interaction ty out (e, t, d) =
    (t = Episodic \<and> (item_type d = ''interaction'' \<or> item_type d = ''successful_interaction'')
     \<and> (case item_data d of PInteraction i \<Rightarrow> int_type i = ty \<and> int_outcome i = out | _ \<Rightarrow> False))"

definition written_interactions :: "(env \<times> tier \<times> item) list \<Rightarrow> interaction list" where
  "written_interactions ws =
    concat (map (\<lambda>(e, t, d). case item_data d of PInteraction i \<Rightarrow> [i] | _ \<Rightarrow> []) ws)"

definition email0 :: interaction where
  "email0 = \<lparr> int_id = ''i-0'', int_customerId = ''cust-0'', int_agentId = ''agent'',
               int_type = ''email'', int_content = ''hello'', int_outcome = ''positive'',
               int_sentiment = 1, int_timestamp = 0, int_metadata = None, int_rest = [] \<rparr>"

definition email_write :: "env \<times> tier \<times> item" where
  "email_write = (env0, Episodic,
     \<lparr> item_type = ''interaction'', item_data = PInteraction email0, item_rest = [] \<rparr>)"

text \<open>Calls of \<^verbatim>\<open>consolidate\<close> one after the other, each in its own environment.\<close>

definition consolidate_times :: "env list \<Rightarrow> manager \<Rightarrow> manager" where
  "consolidate_times es mgr = foldl (\<lambda>m e. consolidate e m) mgr es"

text \<open>
  What \<open>k\<close> rounds of decay leave of patterns that are older than 30 days in every round:
  those whose confidence is still above 0.1, with the confidence multiplied \<open>k\<close> times.
\<close>

definition decayed :: "nat \<Rightarrow> learningPattern list \<Rightarrow> learningPattern list" where
  "decayed k ps =
    map (\<lambda>p. p\<lparr>pat_confidence := pat_confidence p * MEMORY_DECAY_FACTOR ^ k\<rparr>)
      (filter (\<lambda>p. pat_confidence p * MEMORY_DECAY_FACTOR ^ k > 0.1) ps)"

definition stale :: "env \<Rightarrow> learningPattern \<Rightarrow> bool" where
  "stale e p = (real_of_int (now e - lastUsed p) / (1000 * 60 * 60 * 24) > 30)"

definition old_pattern :: learningPattern where
  "old_pattern = \<lparr> pat_id = ''p-0'', pattern = ''email_positive'', pat_confidence = 0.5,
                    applications = 4, successRate = 1, lastUsed = 0, pat_context = [] \<rparr>"

definition late_env :: env where
  "late_env = \<lparr> now = 40 * (1000 * 60 * 60 * 24), uuidv4 = (\<lambda>d. ''11111111-1111-4111-8111-111111111111'') \<rparr>"

definition seasoned :: manager where
  "seasoned = \<lparr> agentId = ''agent'',
      memory = initializeMemory\<lparr>longTerm := (longTerm initializeMemory)\<lparr>learningPatterns := [old_pattern]\<rparr>\<rparr> \<rparr>"

text \<open>
  Two relationships connect the same unordered pair of concept ids with the same type.
\<close>

definition same_link :: "relationship \<Rightarrow> relationship \<Rightarrow> bool" where
  "same_link a b =
    (rel_type a = rel_type b
     \<and> ((source a = source b \<and> target a = target b) \<or> (source a = target b \<and> target a = source b)))"

text \<open>
  Relationship integrity: every relationship refers to concept ids of \<open>domainKnowledge\<close>, and
  no two relationships are the same link.
\<close>

definition relationship_integrity :: "agentMemory \<Rightarrow> bool" where
  "relationship_integrity m =
    (list_all (\<lambda>rel. source rel \<in> set (map node_id (domainKnowledge (semantic m)))
                    \<and> target rel \<in> set (map node_id (domainKnowledge (semantic m))))
       (relationships (semantic m))
     \<and> sorted_wrt (\<lambda>a b. \<not> same_link a b) (relationships (semantic m)))"

definition twin :: "string \<Rightarrow> knowledgeNode" where
  "twin i = \<lparr> node_id = i, concept = ''pricing'', description = ''discount rules'',
             node_relationships = [], node_confidence = 0.5, lastUpdated = 0 \<rparr>"

definition triplets :: agentMemory where
  "triplets = initializeMemory\<lparr>semantic := (semantic initializeMemory)
      \<lparr>domainKnowledge := [twin ''n1'', twin ''n2'', twin ''n3''],
       relationships := [\<lparr> rel_id = ''r1'', source = ''n1'', target = ''n3'', rel_type = ''related_to'',
                           strength = 1, rel_metadata = None \<rparr>]\<rparr>\<rparr>"

definition twins :: agentMemory where
  "twins = initializeMemory\<lparr>semantic := (semantic initializeMemory)
      \<lparr>domainKnowledge := [twin ''n1'', twin ''n2''],
       relationships := [\<lparr> rel_id = ''r1'', source = ''n1'', target = ''n2'', rel_type = ''related_to'',
                           strength = 1, rel_metadata = None \<rparr>,
                         \<lparr> rel_id = ''r2'', source = ''n2'', target = ''n1'', rel_type = ''related_to'',
                           strength = 1, rel_metadata = None \<rparr>]\<rparr>\<rparr>"

text \<open>
  The knowledge nodes as \<^verbatim>\<open>updateConceptRelationships\<close> finds them in a call of
  \<^verbatim>\<open>consolidate\<close>: the nodes of the memory, updated and extended by the recent learnings.
\<close>

definition nodes_at_linking :: "env \<Rightarrow> agentMemory \<Rightarrow> knowledgeNode list" where
  "nodes_at_linking e m =
    foldl (learn e) (domainKnowledge (semantic m))
      (filter (\<lambda>learning. now e - cl_timestamp learning < 7 * 24 * 60 * 60 * 1000)
         (contextualLearnings (episodic m)))"

text \<open>The relationship that the loop builds for the nodes at the indices \<open>i\<close> and \<open>j\<close>.\<close>

definition link_of :: "env \<Rightarrow> string \<Rightarrow> knowledgeNode list \<Rightarrow> nat \<Rightarrow> nat \<Rightarrow> relationship" where
  "link_of e aid cs i j =
    \<lparr> rel_id = uuidv4 e (Relationship_link i j),
      source = node_id (cs ! i),
      target = node_id (cs ! j),
      rel_type = ''related_to'',
      strength = calculateConceptSimilarity (cs ! i) (cs ! j),
      rel_metadata = Some \<lparr> createdAt = now e, meta_agentId = aid \<rparr> \<rparr>"

definition crm_a :: knowledgeNode where
  "crm_a = \<lparr> node_id = ''x'', concept = ''crm'', description = ''lead scoring rules'',
             node_relationships = [], node_confidence = 0.5, lastUpdated = 0 \<rparr>"

definition crm_b :: knowledgeNode where
  "crm_b = \<lparr> node_id = ''x'', concept = ''crm'', description = ''lead scoring rules engine for email'',
             node_relationships = [], node_confidence = 0.5, lastUpdated = 0 \<rparr>"

definition crm_c :: knowledgeNode where
  "crm_c = \<lparr> node_id = ''y'', concept = ''crm'', description = ''lead scoring rules engine'',
             node_relationships = [], node_confidence = 0.5, lastUpdated = 0 \<rparr>"

definition shared_id :: manager where
  "shared_id = \<lparr> agentId = ''agent'',
      memory = initializeMemory\<lparr>semantic := (semantic initializeMemory)\<lparr>domainKnowledge :=
        [crm_a, crm_b, crm_c]\<rparr>\<rparr> \<rparr>"

definition pair_mgr :: manager where
  "pair_mgr = \<lparr> agentId = ''agent'',
      memory = initializeMemory\<lparr>semantic := (semantic initializeMemory)\<lparr>domainKnowledge :=
        [twin ''n1'', twin ''n2'']\<rparr>\<rparr> \<rparr>"

definition action0 :: agentAction where
  "action0 = \<lparr> act_agentId = ''agent'', act_timestamp = 1000, act_rest = [(''kind'', JStr ''send_email'')] \<rparr>"

definition acting :: manager where
  "acting = \<lparr> agentId = ''agent'',
      memory = initializeMemory\<lparr>shortTerm := (shortTerm initializeMemory)\<lparr>recentActions := [action0]\<rparr>\<rparr> \<rparr>"

definition action_query :: props where
  "action_query = [(''type'', JStr ''recent_action'')]"

definition ai_automation :: knowledgeNode where
  "ai_automation = \<lparr> node_id = ''k1'', concept = ''AI automation'',
      description = ''uses AI to automate tasks'', node_relationships = [],
      node_confidence = 0.5, lastUpdated = 0 \<rparr>"

definition ai_tooling :: knowledgeNode where
  "ai_tooling = \<lparr> node_id = ''k2'', concept = ''AI tooling'',
      description = ''AI based automation tooling'', node_relationships = [],
      node_confidence = 0.5, lastUpdated = 0 \<rparr>"

definition ai_mgr :: manager where
  "ai_mgr = \<lparr> agentId = ''agent'',
      memory = initializeMemory\<lparr>semantic := (semantic initializeMemory)\<lparr>domainKnowledge :=
        [ai_automation, ai_tooling]\<rparr>\<rparr> \<rparr>"
section \<open>The write path\<close>

lemma enforce_workingMemory [simp]:
  "workingMemory (shortTerm (enforceShortTermLimits m)) = workingMemory (shortTerm m)"
  by (simp add: enforceShortTermLimits_def Let_def)

lemma enforce_other_tiers [simp]:
  "longTerm (enforceShortTermLimits m) = longTerm m"
  "episodic (enforceShortTermLimits m) = episodic m"
  "semantic (enforceShortTermLimits m) = semantic m"
  by (simp_all add: enforceShortTermLimits_def Let_def)

lemma consolidate_memory_shortTerm:
  "activeLeads (shortTerm (consolidate_memory e aid m)) = activeLeads (shortTerm m)"
  "recentActions (shortTerm (consolidate_memory e aid m)) = recentActions (shortTerm m)"
  "workingMemory (shortTerm (consolidate_memory e aid m)) = workingMemory (shortTerm m)"
  by (simp_all add: consolidate_memory_def applyMemoryDecay_def updateSemanticKnowledge_def
      updateConceptRelationships_def extractPatternsFromEpisodic_def consolidateShortToLong_def Let_def)




lemma storeLongTerm_unrecognized:
  "mi_type it \<notin> set [''customer_profile'', ''campaign'', ''performance_metric'', ''learning_pattern'']
   \<Longrightarrow> storeLongTerm m it = Inr m"
  by (simp add: storeLongTerm_def)

lemma storeEpisodic_unrecognized:
  "mi_type it \<notin> set [''interaction'', ''successful_interaction'', ''problem_resolution'',
      ''decision_outcome'', ''learning_outcome'', ''contextual_learning'']
   \<Longrightarrow> storeEpisodic m it = Inr m"
  by (simp add: storeEpisodic_def)

lemma storeSemantic_unrecognized:
  "mi_type it \<notin> set [''domain_knowledge'', ''relationship'', ''concept'', ''business_rule'',
      ''learning_pattern'', ''optimization_strategy'', ''engagement_strategy'']
   \<Longrightarrow> storeSemantic m it = Inr m"
  by (simp add: storeSemantic_def)

lemma storeShortTerm_unrecognized:
  "mi_type it \<notin> set [''conversation_context'', ''active_lead'', ''processed_lead'', ''recent_action'']
   \<Longrightarrow> storeShortTerm m it = Inr (enforceShortTermLimits
         (m\<lparr>shortTerm := (shortTerm m)\<lparr>workingMemory :=
              (workingMemory (shortTerm m))(mi_type it \<mapsto> mi_data it)\<rparr>\<rparr>))"
  by (simp add: storeShortTerm_def)


lemma consolidate_workingMemory:
  "workingMemory (shortTerm (memory (consolidate e mgr))) = workingMemory (shortTerm (memory mgr))"
  by (simp add: consolidate_def consolidate_memory_shortTerm)

lemma store_short_unrecognized:
  assumes "item_type d \<notin> set [''conversation_context'', ''active_lead'', ''processed_lead'', ''recent_action'']"
  shows "\<exists>mgr1. store e mgr Short d = Inr mgr1
           \<and> workingMemory (shortTerm (memory mgr1))
               = (workingMemory (shortTerm (memory mgr)))(item_type d \<mapsto> item_data d)"
proof -
  let ?it = "make_memoryItem e (agentId mgr) d"
  have ty: "mi_type ?it = item_type d" and da: "mi_data ?it = item_data d"
    by (simp_all add: make_memoryItem_def)
  have "route Short (memory mgr) ?it = Inr (enforceShortTermLimits
         ((memory mgr)\<lparr>shortTerm := (shortTerm (memory mgr))\<lparr>workingMemory :=
              (workingMemory (shortTerm (memory mgr)))(item_type d \<mapsto> item_data d)\<rparr>\<rparr>))"
    using assms storeShortTerm_unrecognized [of ?it "memory mgr"] by (simp add: route_def ty da)
  then show ?thesis
    by (simp add: store_def Let_def consolidate_workingMemory)
qed

text \<open>
  C10. A write whose tag is not in the mapping table of its tier leaves the long-term,
  episodic and semantic tiers as they are: the write step returns the memory unchanged
  and raises no error, so \<^verbatim>\<open>store\<close> does what it does without the record. In the short-term
  tier such a tag names a slot of \<open>workingMemory\<close>: the write stores the data there, and a
  second write under the same tag replaces it (one entry per tag, the last write wins).
\<close>

theorem unrecognized_tag_dropped_or_kept_in_workingMemory:
  assumes same: "item_type d' = item_type d"
  shows
    "(item_type d \<notin> set [''customer_profile'', ''campaign'', ''performance_metric'', ''learning_pattern'']
        \<longrightarrow> storeLongTerm (memory mgr) (make_memoryItem e (agentId mgr) d) = Inr (memory mgr)
          \<and> store e mgr Long d = Inr (if shouldConsolidate (memory mgr) then consolidate e mgr else mgr))
   \<and> (item_type d \<notin> set [''interaction'', ''successful_interaction'', ''problem_resolution'',
          ''decision_outcome'', ''learning_outcome'', ''contextual_learning'']
        \<longrightarrow> storeEpisodic (memory mgr) (make_memoryItem e (agentId mgr) d) = Inr (memory mgr)
          \<and> store e mgr Episodic d = Inr (if shouldConsolidate (memory mgr) then consolidate e mgr else mgr))
   \<and> (item_type d \<notin> set [''domain_knowledge'', ''relationship'', ''concept'', ''business_rule'',
          ''learning_pattern'', ''optimization_strategy'', ''engagement_strategy'']
        \<longrightarrow> storeSemantic (memory mgr) (make_memoryItem e (agentId mgr) d) = Inr (memory mgr)
          \<and> store e mgr Semantic d = Inr (if shouldConsolidate (memory mgr) then consolidate e mgr else mgr))
   \<and> (item_type d \<notin> set [''conversation_context'', ''active_lead'', ''processed_lead'', ''recent_action'']
        \<longrightarrow> (\<exists>mgr1 mgr2. store e mgr Short d = Inr mgr1 \<and> store e' mgr1 Short d' = Inr mgr2
              \<and> workingMemory (shortTerm (memory mgr1))
                  = (workingMemory (shortTerm (memory mgr)))(item_type d \<mapsto> item_data d)
              \<and> workingMemory (shortTerm (memory mgr2))
                  = (workingMemory (shortTerm (memory mgr)))(item_type d \<mapsto> item_data d')))"
proof (intro conjI impI)
  assume a: "item_type d \<notin> set [''customer_profile'', ''campaign'', ''performance_metric'', ''learning_pattern'']"
  then show l: "storeLongTerm (memory mgr) (make_memoryItem e (agentId mgr) d) = Inr (memory mgr)"
    by (intro storeLongTerm_unrecognized) (simp add: make_memoryItem_def)
  show "store e mgr Long d = Inr (if shouldConsolidate (memory mgr) then consolidate e mgr else mgr)"
    using l by (simp add: store_def route_def Let_def)
next
  assume a: "item_type d \<notin> set [''interaction'', ''successful_interaction'', ''problem_resolution'',
          ''decision_outcome'', ''learning_outcome'', ''contextual_learning'']"
  then show l: "storeEpisodic (memory mgr) (make_memoryItem e (agentId mgr) d) = Inr (memory mgr)"
    by (intro storeEpisodic_unrecognized) (simp add: make_memoryItem_def)
  show "store e mgr Episodic d = Inr (if shouldConsolidate (memory mgr) then consolidate e mgr else mgr)"
    using l by (simp add: store_def route_def Let_def)
next
  assume a: "item_type d \<notin> set [''domain_knowledge'', ''relationship'', ''concept'', ''business_rule'',
          ''learning_pattern'', ''optimization_strategy'', ''engagement_strategy'']"
  then show l: "storeSemantic (memory mgr) (make_memoryItem e (agentId mgr) d) = Inr (memory mgr)"
    by (intro storeSemantic_unrecognized) (simp add: make_memoryItem_def)
  show "store e mgr Semantic d = Inr (if shouldConsolidate (memory mgr) then consolidate e mgr else mgr)"
    using l by (simp add: store_def route_def Let_def)
next
  assume a: "item_type d \<notin> set [''conversation_context'', ''active_lead'', ''processed_lead'', ''recent_action'']"
  from store_short_unrecognized [OF a, of e mgr] obtain mgr1 where
    1: "store e mgr Short d = Inr mgr1"
    and w1: "workingMemory (shortTerm (memory mgr1))
               = (workingMemory (shortTerm (memory mgr)))(item_type d \<mapsto> item_data d)"
    by blast
  from a same have a': "item_type d' \<notin> set [''conversation_context'', ''active_lead'', ''processed_lead'', ''recent_action'']"
    by simp
  from store_short_unrecognized [OF a', of e' mgr1] obtain mgr2 where
    2: "store e' mgr1 Short d' = Inr mgr2"
    and w2: "workingMemory (shortTerm (memory mgr2))
               = (workingMemory (shortTerm (memory mgr1)))(item_type d' \<mapsto> item_data d')"
    by blast
  from w1 w2 same have "workingMemory (shortTerm (memory mgr2))
                  = (workingMemory (shortTerm (memory mgr)))(item_type d \<mapsto> item_data d')"
    by simp
  with 1 2 w1 show "\<exists>mgr1 mgr2. store e mgr Short d = Inr mgr1 \<and> store e' mgr1 Short d' = Inr mgr2
              \<and> workingMemory (shortTerm (memory mgr1))
                  = (workingMemory (shortTerm (memory mgr)))(item_type d \<mapsto> item_data d)
              \<and> workingMemory (shortTerm (memory mgr2))
                  = (workingMemory (shortTerm (memory mgr)))(item_type d \<mapsto> item_data d')"
    by blast
qed

theorem unrecognized_tag_witness:
  "store env0 (new_manager ''agent'') Long \<lparr> item_type = ''note'', item_data = PObject [(''n'', JNum 1)], item_rest = [] \<rparr>
     = Inr (new_manager ''agent'')
   \<and> store env0 (new_manager ''agent'') Episodic \<lparr> item_type = ''note'', item_data = PObject [(''n'', JNum 1)], item_rest = [] \<rparr>
     = Inr (new_manager ''agent'')
   \<and> store env0 (new_manager ''agent'') Semantic \<lparr> item_type = ''note'', item_data = PObject [(''n'', JNum 1)], item_rest = [] \<rparr>
     = Inr (new_manager ''agent'')
   \<and> (\<exists>mgr1 mgr2.
        store env0 (new_manager ''agent'') Short \<lparr> item_type = ''note'', item_data = PObject [(''n'', JNum 1)], item_rest = [] \<rparr> = Inr mgr1
      \<and> store env0 mgr1 Short \<lparr> item_type = ''note'', item_data = PObject [(''n'', JNum 2)], item_rest = [] \<rparr> = Inr mgr2
      \<and> workingMemory (shortTerm (memory mgr1)) ''note'' = Some (PObject [(''n'', JNum 1)])
      \<and> workingMemory (shortTerm (memory mgr2)) ''note'' = Some (PObject [(''n'', JNum 2)]))"
proof -
  have nc: "\<not> shouldConsolidate (memory (new_manager ''agent''))"
    by (simp add: shouldConsolidate_def new_manager_def initializeMemory_def)
  note t = unrecognized_tag_dropped_or_kept_in_workingMemory
      [of "\<lparr> item_type = ''note'', item_data = PObject [(''n'', JNum 2)], item_rest = [] \<rparr>"
          "\<lparr> item_type = ''note'', item_data = PObject [(''n'', JNum 1)], item_rest = [] \<rparr>"
          "new_manager ''agent''" env0 env0]
  from t nc show ?thesis
    by simp (metis fun_upd_same)
qed









section \<open>Relevance and ranking\<close>

lemma foldl_bonus:
  "foldl (\<lambda>s key. if P key then s + c else s) s0 ks = s0 + c * real (length (filter P ks))"
  for c :: real
  by (induction ks arbitrary: s0) (simp_all add: algebra_simps)



lemma filter_take_prefix:
  "filter P (take k xs) = take (length (filter P (take k xs))) (filter P xs)"
proof (induction xs arbitrary: k)
  case Nil
  then show ?case by simp
next
  case (Cons x xs)
  then show ?case by (cases k) auto
qed

lemma js_sort_desc_sorted:
  "sorted_wrt (\<lambda>a b. key a \<ge> key b) (js_sort_desc key xs)"
proof -
  have "sorted (map (\<lambda>x. - key x) (js_sort_desc key xs))"
    unfolding js_sort_desc_def by (rule sorted_sort_key)
  then show ?thesis
    by (simp add: sorted_map)
qed

lemma js_sort_desc_stable:
  "filter (\<lambda>x. key x = s) (js_sort_desc key xs) = filter (\<lambda>x. key x = s) xs"
proof -
  have "filter (\<lambda>x. - key x = - s) (sort_key (\<lambda>x. - key x) xs) = filter (\<lambda>x. - key x = - s) xs"
    by (rule sort_key_stable)
  then show ?thesis by (simp add: js_sort_desc_def)
qed

lemma js_sort_desc_mset [simp]: "mset (js_sort_desc key xs) = mset xs"
  by (simp add: js_sort_desc_def)

lemma js_sort_desc_length [simp]: "length (js_sort_desc key xs) = length xs"
  by (simp add: js_sort_desc_def)

lemma js_sort_desc_unique:
  assumes "mset ys = mset xs"
    and "sorted_wrt (\<lambda>a b. key a \<ge> key b) ys"
    and "\<And>s. filter (\<lambda>x. key x = s) ys = filter (\<lambda>x. key x = s) xs"
  shows "js_sort_desc key xs = ys"
  unfolding js_sort_desc_def
proof (rule properties_for_sort_key)
  show "mset ys = mset xs" by fact
  show "sorted (map (\<lambda>x. - key x) ys)"
    using assms(2) by (simp add: sorted_map)
  fix k
  have "(\<lambda>x. - key k = - key x) = (\<lambda>x. key x = key k)"
    by (rule ext) auto
  then show "filter (\<lambda>x. - key k = - key x) ys = filter (\<lambda>x. - key k = - key x) xs"
    using assms(3) [of "key k"] by simp
qed

text \<open>
  C9. For a fixed candidate list, query, agent and clock reading the ranking is a function
  of these alone, and any sorted, stable arrangement of the scored candidates yields the
  same output: it has at most 50 items (the first 50 of the arrangement), is sorted by
  non-increasing score, and candidates of equal score keep their input order.
\<close>

theorem ranking_sorted_stable_capped:
  "length (rankByRelevance aid t results query) = min 50 (length results)
   \<and> sorted_wrt (\<lambda>a b. relevanceScore a \<ge> relevanceScore b) (rankByRelevance aid t results query)
   \<and> (\<forall>s. \<exists>n. filter (\<lambda>x. relevanceScore x = s) (rankByRelevance aid t results query)
                = take n (filter (\<lambda>x. relevanceScore x = s) (scored aid t results query)))
   \<and> (\<forall>ys. mset ys = mset (scored aid t results query)
          \<and> sorted_wrt (\<lambda>a b. relevanceScore a \<ge> relevanceScore b) ys
          \<and> (\<forall>s. filter (\<lambda>x. relevanceScore x = s) ys
                   = filter (\<lambda>x. relevanceScore x = s) (scored aid t results query))
        \<longrightarrow> rankByRelevance aid t results query = take 50 ys)"
proof -
  let ?S = "scored aid t results query"
  have rk: "rankByRelevance aid t results query = take 50 (js_sort_desc relevanceScore ?S)"
    by (simp add: rankByRelevance_def scored_def)
  have 1: "length (rankByRelevance aid t results query) = min 50 (length results)"
    by (simp add: rk scored_def min.commute)
  have 2: "sorted_wrt (\<lambda>a b. relevanceScore a \<ge> relevanceScore b) (rankByRelevance aid t results query)"
    unfolding rk by (rule sorted_wrt_take) (rule js_sort_desc_sorted)
  have 3: "\<exists>n. filter (\<lambda>x. relevanceScore x = s) (rankByRelevance aid t results query)
                = take n (filter (\<lambda>x. relevanceScore x = s) ?S)" for s
    unfolding rk
    using filter_take_prefix [of "\<lambda>x. relevanceScore x = s" 50 "js_sort_desc relevanceScore ?S"]
    by (metis js_sort_desc_stable)
  have 4: "rankByRelevance aid t results query = take 50 ys"
    if "mset ys = mset ?S" "sorted_wrt (\<lambda>a b. relevanceScore a \<ge> relevanceScore b) ys"
       "\<forall>s. filter (\<lambda>x. relevanceScore x = s) ys = filter (\<lambda>x. relevanceScore x = s) ?S" for ys
    unfolding rk using js_sort_desc_unique [of ys ?S relevanceScore] that by simp
  from 1 2 3 4 show ?thesis by blast
qed

lemma sample_scores:
  "calculateRelevance ''agent'' 0 lead_candidate note_query = 0.5"
  "calculateRelevance ''agent'' 0 note_candidate note_query = 0.8"
  by (simp_all add: calculateRelevance_def field_matches_def lead_candidate_def note_candidate_def
        note_query_def wrap_def lead0_def query_keys_def prop_of_def)

theorem ranking_witness:
  "rankByRelevance ''agent'' 0 [lead_candidate, note_candidate] note_query
     = [\<lparr> ranked_result = note_candidate, relevanceScore = 0.8 \<rparr>,
        \<lparr> ranked_result = lead_candidate, relevanceScore = 0.5 \<rparr>]"
proof -
  let ?ys = "[\<lparr> ranked_result = note_candidate, relevanceScore = 0.8 \<rparr>,
        \<lparr> ranked_result = lead_candidate, relevanceScore = 0.5 \<rparr>]"
  have sc: "scored ''agent'' 0 [lead_candidate, note_candidate] note_query
      = [\<lparr> ranked_result = lead_candidate, relevanceScore = 0.5 \<rparr>,
         \<lparr> ranked_result = note_candidate, relevanceScore = 0.8 \<rparr>]"
    by (simp add: scored_def sample_scores)
  have a: "mset ?ys = mset (scored ''agent'' 0 [lead_candidate, note_candidate] note_query)"
    by (simp add: sc)
  have b: "sorted_wrt (\<lambda>a b. relevanceScore a \<ge> relevanceScore b) ?ys"
    by simp
  have c: "\<forall>s. filter (\<lambda>x. relevanceScore x = s) ?ys
       = filter (\<lambda>x. relevanceScore x = s) (scored ''agent'' 0 [lead_candidate, note_candidate] note_query)"
    by (auto simp: sc)
  from ranking_sorted_stable_capped [of "''agent''" 0 "[lead_candidate, note_candidate]" note_query]
    a b c
  have "rankByRelevance ''agent'' 0 [lead_candidate, note_candidate] note_query = take 50 ?ys"
    by blast
  then show ?thesis by simp
qed
section \<open>Capacity of the active leads\<close>

lemma insort_insert_after:
  "insort_key f a (insert_after f x ys) = insert_after f x (insort_key f a ys)"
  by (induction ys) auto

lemma sort_key_snoc:
  "sort_key f (xs @ [x]) = insert_after f x (sort_key f xs)"
  by (induction xs) (simp_all add: insort_insert_after)

lemma take_Cons_take: "take k (y # take k ys) = take k (y # ys)"
  by (cases k) simp_all

lemma take_insert_after_take:
  "take k (insert_after f x (take k ys)) = take k (insert_after f x ys)"
proof (induction ys arbitrary: k)
  case Nil
  then show ?case by simp
next
  case (Cons y ys)
  show ?case
  proof (cases k)
    case 0
    then show ?thesis by simp
  next
    case (Suc k')
    then show ?thesis
      using Cons.IH [of k'] by (simp add: take_Cons_take)
  qed
qed

lemma take_sort_take_snoc:
  "take k (sort_key f (take k (sort_key f xs) @ [x])) = take k (sort_key f (xs @ [x]))"
proof -
  have "sorted (map f (take k (sort_key f xs)))"
    by (simp add: take_map [symmetric] sorted_wrt_take)
  then have "sort_key f (take k (sort_key f xs)) = take k (sort_key f xs)"
    by (rule sort_key_id_if_sorted)
  then show ?thesis
    by (simp add: sort_key_snoc take_insert_after_take)
qed

lemma enforce_activeLeads:
  "activeLeads (shortTerm (enforceShortTermLimits m)) =
    (if length (activeLeads (shortTerm m)) > 100
     then take 100 (js_sort_desc score (activeLeads (shortTerm m)))
     else activeLeads (shortTerm m))"
  by (simp add: enforceShortTermLimits_def Let_def)

lemma store_lead:
  assumes "routed_to_activeLeads (e, t, d)"
  shows "\<exists>mgr'. store e mgr t d = Inr mgr'
          \<and> activeLeads (shortTerm (memory mgr')) =
              (if length (activeLeads (shortTerm (memory mgr))) \<ge> 100
               then take 100 (js_sort_desc score
                      (activeLeads (shortTerm (memory mgr)) @ written_leads [(e, t, d)]))
               else activeLeads (shortTerm (memory mgr)) @ written_leads [(e, t, d)])"
proof -
  from assms obtain l where l: "item_data d = PLead l" and t: "t = Short"
    and ty: "item_type d = ''active_lead'' \<or> item_type d = ''processed_lead''"
    by (auto split: payload.splits)
  have r: "route t (memory mgr) (make_memoryItem e (agentId mgr) d)
      = Inr (enforceShortTermLimits ((memory mgr)\<lparr>shortTerm := (shortTerm (memory mgr))
              \<lparr>activeLeads := activeLeads (shortTerm (memory mgr)) @ [l]\<rparr>\<rparr>))"
    using ty by (auto simp: t route_def storeShortTerm_def make_memoryItem_def l)
  show ?thesis
    by (simp add: store_def r Let_def consolidate_def consolidate_memory_shortTerm
        enforce_activeLeads written_leads_def l) 
qed

lemma store_all_snoc:
  "store_all mgr (ws @ [w]) =
    (case store_all mgr ws of Inl err \<Rightarrow> Inl err | Inr mgr' \<Rightarrow> store_all mgr' [w])"
  by (induction mgr ws rule: store_all.induct) (auto split: sum.splits)

lemma written_leads_snoc: "written_leads (ws @ [w]) = written_leads ws @ written_leads [w]"
  by (simp add: written_leads_def)

lemma length_written_leads:
  "\<forall>w\<in>set ws. routed_to_activeLeads w \<Longrightarrow> length (written_leads ws) = length ws"
  by (induction ws) (auto simp: written_leads_def split: payload.splits)

lemma store_all_leads:
  assumes "\<forall>w\<in>set ws. routed_to_activeLeads w"
    and "activeLeads (shortTerm (memory mgr0)) = []"
  shows "\<exists>mgr. store_all mgr0 ws = Inr mgr
           \<and> activeLeads (shortTerm (memory mgr)) =
               (if length ws \<le> 100 then written_leads ws
                else take 100 (js_sort_desc score (written_leads ws)))"
  using assms(1)
proof (induction ws rule: rev_induct)
  case Nil
  then show ?case by (simp add: assms(2) written_leads_def)
next
  case (snoc w ws)
  then obtain mgr where m: "store_all mgr0 ws = Inr mgr"
    and al: "activeLeads (shortTerm (memory mgr)) =
               (if length ws \<le> 100 then written_leads ws
                else take 100 (js_sort_desc score (written_leads ws)))"
    by auto
  obtain e t d where w: "w = (e, t, d)" by (cases w)
  from snoc.prems have rw: "routed_to_activeLeads (e, t, d)" by (simp add: w)
  from snoc.prems have len: "length (written_leads ws) = length ws"
    by (intro length_written_leads) simp
  from store_lead [OF rw, of mgr] obtain mgr' where
    s: "store e mgr t d = Inr mgr'"
    and al': "activeLeads (shortTerm (memory mgr')) =
              (if length (activeLeads (shortTerm (memory mgr))) \<ge> 100
               then take 100 (js_sort_desc score
                      (activeLeads (shortTerm (memory mgr)) @ written_leads [(e, t, d)]))
               else activeLeads (shortTerm (memory mgr)) @ written_leads [(e, t, d)])"
    by blast
  have one: "\<exists>l. written_leads [(e, t, d)] = [l]"
    using rw by (auto simp: written_leads_def split: payload.splits)
  then obtain l where l: "written_leads [(e, t, d)] = [l]" ..
  have "activeLeads (shortTerm (memory mgr')) =
               (if length (ws @ [w]) \<le> 100 then written_leads (ws @ [w])
                else take 100 (js_sort_desc score (written_leads (ws @ [w]))))"
  proof (cases "length ws < 100")
    case True
    then show ?thesis
      using al al' len by (simp add: written_leads_snoc w)
  next
    case False
    show ?thesis
    proof (cases "length ws = 100")
      case True
      then show ?thesis
        using al al' len by (simp add: written_leads_snoc w)
    next
      case F2: False
      with False have gt: "length ws > 100" by simp
      then have a: "activeLeads (shortTerm (memory mgr)) = take 100 (js_sort_desc score (written_leads ws))"
        using al by simp
      have "length (activeLeads (shortTerm (memory mgr))) = 100"
        using gt len by (simp add: a js_sort_desc_def)
      then show ?thesis
        using al' gt
        by (simp add: a written_leads_snoc w l js_sort_desc_def take_sort_take_snoc)
    qed
  qed
  with m s show ?case
    by (simp add: store_all_snoc w)
qed

text \<open>
  C2. For every sequence of writes routed to \<open>activeLeads\<close>, starting from an empty list,
  after each write the list has at most 100 entries; it holds every lead written so far
  while these are at most 100, and from then on exactly the first 100 of the stable
  descending arrangement by score of all leads written so far: the 100 highest scores,
  the earlier write winning among equal scores. No lead that was dropped has a higher
  score than one that is kept.
\<close>

theorem activeLeads_capacity:
  assumes "\<forall>w\<in>set ws. routed_to_activeLeads w"
    and "activeLeads (shortTerm (memory mgr0)) = []"
    and "n \<le> length ws"
  shows "\<exists>mgr. store_all mgr0 (take n ws) = Inr mgr
           \<and> length (activeLeads (shortTerm (memory mgr))) \<le> 100
           \<and> activeLeads (shortTerm (memory mgr)) =
               (if n \<le> 100 then written_leads (take n ws)
                else take 100 (js_sort_desc score (written_leads (take n ws))))
           \<and> (\<forall>a\<in>set (activeLeads (shortTerm (memory mgr))).
                \<forall>b\<in>set (drop 100 (js_sort_desc score (written_leads (take n ws)))).
                  score b \<le> score a)"
proof -
  let ?ws = "take n ws"
  let ?S = "js_sort_desc score (written_leads ?ws)"
  have r: "\<forall>w\<in>set ?ws. routed_to_activeLeads w"
    using assms(1) by (meson in_set_takeD)
  have len: "length (written_leads ?ws) = n"
    using length_written_leads [OF r] assms(3) by simp
  from store_all_leads [OF r assms(2)] assms(3) obtain mgr where
    m: "store_all mgr0 ?ws = Inr mgr"
    and al: "activeLeads (shortTerm (memory mgr)) =
               (if n \<le> 100 then written_leads ?ws else take 100 ?S)"
    by auto
  have bound: "length (activeLeads (shortTerm (memory mgr))) \<le> 100"
    using al len by (simp add: js_sort_desc_def)
  have top: "score b \<le> score a"
    if a: "a \<in> set (activeLeads (shortTerm (memory mgr)))" and b: "b \<in> set (drop 100 ?S)" for a b
  proof (cases "n \<le> 100")
    case True
    then have "drop 100 ?S = []" using len by (simp add: js_sort_desc_def)
    with b show ?thesis by simp
  next
    case False
    with al a have a': "a \<in> set (take 100 ?S)" by simp
    have "sorted_wrt (\<lambda>a b. score a \<ge> score b) (take 100 ?S @ drop 100 ?S)"
      by (simp add: js_sort_desc_sorted)
    with a' b show ?thesis
      unfolding sorted_wrt_append by blast
  qed
  from m bound al top show ?thesis by blast
qed

lemma written_leads_replicate: "written_leads (replicate k lead_write) = replicate k lead0"
  by (induction k) (simp_all add: written_leads_def lead_write_def)

theorem activeLeads_capacity_witness:
  "\<exists>mgr. store_all (new_manager ''agent'') (replicate 101 lead_write) = Inr mgr
      \<and> length (activeLeads (shortTerm (memory mgr))) \<le> 100
      \<and> activeLeads (shortTerm (memory mgr)) = replicate 100 lead0"
proof -
  have h1: "\<forall>w\<in>set (replicate 101 lead_write). routed_to_activeLeads w"
    by (simp add: lead_write_def)
  have h2: "activeLeads (shortTerm (memory (new_manager ''agent''))) = []"
    by (simp add: new_manager_def initializeMemory_def)
  have h3: "(101::nat) \<le> length (replicate 101 lead_write)"
    by simp
  have "sorted (map (\<lambda>x. - score x) (replicate 101 lead0))"
    by (simp add: sorted_wrt_iff_nth_less)
  then have srt: "js_sort_desc score (replicate 101 lead0) = replicate 101 lead0"
    unfolding js_sort_desc_def by (rule sort_key_id_if_sorted)
  from activeLeads_capacity [OF h1 h2 h3] show ?thesis
    by (simp add: written_leads_replicate srt) blast
qed
section \<open>Pattern extraction\<close>

lemma record_interaction_same_key:
  assumes "interaction_key i = k"
  shows "record_interaction [(k, pd)] i =
     [(k,
       pd\<lparr> pd_count := pd_count pd + 1,
           pd_successCount := (if int_outcome i = ''positive'' \<or> int_outcome i = ''conversion''
                               then pd_successCount pd + 1 else pd_successCount pd),
           pd_contexts := pd_contexts pd @ [int_metadata i] \<rparr>)]"
  using assms by (simp add: record_interaction_def map_has_def map_modify_def Let_def)

lemma foldl_record_same_key:
  assumes "\<forall>i\<in>set xs. interaction_key i = k
              \<and> (int_outcome i = ''positive'' \<or> int_outcome i = ''conversion'')"
  shows "foldl record_interaction [(k, pd)] xs =
     [(k,
       pd\<lparr> pd_count := pd_count pd + length xs,
           pd_successCount := pd_successCount pd + length xs,
           pd_contexts := pd_contexts pd @ map int_metadata xs \<rparr>)]"
  using assms
proof (induction xs arbitrary: pd)
  case Nil
  then show ?case by simp
next
  case (Cons i xs)
  then have k: "interaction_key i = k"
    and pos: "int_outcome i = ''positive'' \<or> int_outcome i = ''conversion''"
    and rest: "\<forall>i\<in>set xs. interaction_key i = k
              \<and> (int_outcome i = ''positive'' \<or> int_outcome i = ''conversion'')"
    by simp_all
  show ?case
    using pos by (simp add: record_interaction_same_key [OF k] Cons.IH [OF rest])
qed

lemma record_interaction_first:
  "record_interaction [] i =
     [(interaction_key i,
       \<lparr> pd_type = int_type i, pd_outcome = int_outcome i, pd_count = 1,
         pd_successCount = (if int_outcome i = ''positive'' \<or> int_outcome i = ''conversion'' then 1 else 0),
         pd_contexts = [int_metadata i] \<rparr>)]"
  by (simp add: record_interaction_def map_has_def map_modify_def Let_def)

lemma findInteractionPatterns_uniform:
  assumes "\<forall>i\<in>set xs. int_type i = ty \<and> int_outcome i = out"
    and "out = ''positive'' \<or> out = ''conversion''"
    and "length xs \<ge> 3"
  shows "findInteractionPatterns e xs =
     [\<lparr> pat_id = uuidv4 e (Interaction_pattern (ty @ ''_'' @ out)),
        pattern = ty @ ''_'' @ out,
        pat_confidence = 1,
        applications = real (length xs),
        successRate = 1,
        lastUsed = now e,
        pat_context = map (\<lambda>i. JSON_stringify (int_metadata i)) xs \<rparr>]"
proof -
  from assms(3) obtain i rest where xs: "xs = i # rest" by (cases xs) auto
  with assms(1) have i: "int_type i = ty" "int_outcome i = out"
    by simp_all
  then have ki: "interaction_key i = ty @ ''_'' @ out"
    by (simp add: interaction_key_def)
  have rest: "\<forall>j\<in>set rest. interaction_key j = interaction_key i
              \<and> (int_outcome j = ''positive'' \<or> int_outcome j = ''conversion'')"
    using assms(1,2) i by (simp add: xs interaction_key_def)
  have "foldl record_interaction [] xs =
     [(interaction_key i,
       \<lparr> pd_type = ty, pd_outcome = out, pd_count = length xs,
         pd_successCount = length xs, pd_contexts = map int_metadata xs \<rparr>)]"
    using assms(2) i
    by (simp add: xs record_interaction_first foldl_record_same_key [OF rest])
  moreover have "xs \<noteq> []"
    by (simp add: xs)
  ultimately show ?thesis
    using assms(3) by (simp add: findInteractionPatterns_def comp_def ki)
qed

lemma learningPatterns_consolidate_memory:
  "learningPatterns (longTerm (consolidate_memory e aid m)) =
    filter (\<lambda>p. pat_confidence p > 0.1)
      (map (decay_pattern (now e))
        (learningPatterns (longTerm m)
          @ findInteractionPatterns e (successfulInteractions (episodic m))
          @ findDecisionPatterns e (decisionOutcomes (episodic m))))"
  by (simp add: consolidate_memory_def applyMemoryDecay_def updateSemanticKnowledge_def
      updateConceptRelationships_def extractPatternsFromEpisodic_def consolidateShortToLong_def Let_def)

lemma store_interaction:
  assumes "stores_interaction ty out (e, t, d)"
    and "\<not> shouldConsolidate (memory mgr)"
  shows "store e mgr t d = Inr (mgr\<lparr>memory := (memory mgr)\<lparr>episodic := (episodic (memory mgr))
            \<lparr>successfulInteractions :=
               successfulInteractions (episodic (memory mgr)) @ written_interactions [(e, t, d)]\<rparr>\<rparr>\<rparr>)"
proof -
  from assms(1) obtain i where i: "item_data d = PInteraction i" and t: "t = Episodic"
    and ty: "item_type d = ''interaction'' \<or> item_type d = ''successful_interaction''"
    by (auto split: payload.splits)
  have r: "route t (memory mgr) (make_memoryItem e (agentId mgr) d)
      = Inr ((memory mgr)\<lparr>episodic := (episodic (memory mgr))
            \<lparr>successfulInteractions := successfulInteractions (episodic (memory mgr)) @ [i]\<rparr>\<rparr>)"
    using ty by (auto simp: t route_def storeEpisodic_def make_memoryItem_def i)
  show ?thesis
    using assms(2) by (simp add: store_def r Let_def shouldConsolidate_def written_interactions_def i)
qed

lemma store_all_interactions:
  assumes "\<forall>w\<in>set ws. stores_interaction ty out w"
    and "\<not> shouldConsolidate (memory mgr)"
  shows "store_all mgr ws = Inr (mgr\<lparr>memory := (memory mgr)\<lparr>episodic := (episodic (memory mgr))
            \<lparr>successfulInteractions :=
               successfulInteractions (episodic (memory mgr)) @ written_interactions ws\<rparr>\<rparr>\<rparr>)"
  using assms
proof (induction ws arbitrary: mgr)
  case Nil
  then show ?case by (simp add: written_interactions_def)
next
  case (Cons w ws)
  obtain e t d where w: "w = (e, t, d)" by (cases w)
  with Cons.prems have s: "stores_interaction ty out (e, t, d)" by simp
  let ?mgr' = "mgr\<lparr>memory := (memory mgr)\<lparr>episodic := (episodic (memory mgr))
            \<lparr>successfulInteractions :=
               successfulInteractions (episodic (memory mgr)) @ written_interactions [(e, t, d)]\<rparr>\<rparr>\<rparr>"
  have st: "store e mgr t d = Inr ?mgr'"
    by (rule store_interaction [OF s Cons.prems(2)])
  have nc: "\<not> shouldConsolidate (memory ?mgr')"
    using Cons.prems(2) by (simp add: shouldConsolidate_def)
  have "store_all ?mgr' ws = Inr (?mgr'\<lparr>memory := (memory ?mgr')\<lparr>episodic := (episodic (memory ?mgr'))
            \<lparr>successfulInteractions :=
               successfulInteractions (episodic (memory ?mgr')) @ written_interactions ws\<rparr>\<rparr>\<rparr>)"
    using Cons.prems(1) nc by (intro Cons.IH) simp_all
  then show ?case
    by (simp add: w st written_interactions_def)
qed

lemma written_interactions_props:
  assumes "\<forall>w\<in>set ws. stores_interaction ty out w"
  shows "length (written_interactions ws) = length ws"
    and "\<forall>i\<in>set (written_interactions ws). int_type i = ty \<and> int_outcome i = out"
  using assms
  by (induction ws) (auto simp: written_interactions_def split: payload.splits)

text \<open>
  C4. If exactly four interactions of type \<^verbatim>\<open>email\<close> and outcome \<^verbatim>\<open>positive\<close> are stored
  to the episodic tier of a new manager and \<^verbatim>\<open>consolidate\<close> is then called once, the
  learning patterns of the long-term tier are one pattern \<^verbatim>\<open>email_positive\<close> with confidence
  1 and 4 applications.
\<close>

theorem four_positive_emails_one_pattern:
  assumes "\<forall>w\<in>set ws. stores_interaction ''email'' ''positive'' w"
    and "length ws = 4"
  shows "\<exists>mgr. store_all (new_manager aid) ws = Inr mgr
           \<and> learningPatterns (longTerm (memory (consolidate e mgr))) =
               [\<lparr> pat_id = uuidv4 e (Interaction_pattern ''email_positive''),
                  pattern = ''email_positive'',
                  pat_confidence = 1.0,
                  applications = 4,
                  successRate = 1.0,
                  lastUsed = now e,
                  pat_context = map (\<lambda>i. JSON_stringify (int_metadata i)) (written_interactions ws) \<rparr>]"
proof -
  let ?xs = "written_interactions ws"
  have nc: "\<not> shouldConsolidate (memory (new_manager aid))"
    by (simp add: shouldConsolidate_def new_manager_def initializeMemory_def)
  let ?mgr = "(new_manager aid)\<lparr>memory := (memory (new_manager aid))\<lparr>episodic := (episodic (memory (new_manager aid)))
            \<lparr>successfulInteractions :=
               successfulInteractions (episodic (memory (new_manager aid))) @ ?xs\<rparr>\<rparr>\<rparr>"
  have st: "store_all (new_manager aid) ws = Inr ?mgr"
    by (rule store_all_interactions [OF assms(1) nc])
  have len: "length ?xs = 4"
    using written_interactions_props(1) [OF assms(1)] assms(2) by simp
  have fp: "findInteractionPatterns e ?xs =
     [\<lparr> pat_id = uuidv4 e (Interaction_pattern (''email'' @ ''_'' @ ''positive'')),
        pattern = ''email'' @ ''_'' @ ''positive'',
        pat_confidence = 1,
        applications = real (length ?xs),
        successRate = 1,
        lastUsed = now e,
        pat_context = map (\<lambda>i. JSON_stringify (int_metadata i)) ?xs \<rparr>]"
    using written_interactions_props(2) [OF assms(1)] len
    by (intro findInteractionPatterns_uniform) simp_all
  have "learningPatterns (longTerm (memory (consolidate e ?mgr))) =
               [\<lparr> pat_id = uuidv4 e (Interaction_pattern ''email_positive''),
                  pattern = ''email_positive'',
                  pat_confidence = 1.0,
                  applications = 4,
                  successRate = 1.0,
                  lastUsed = now e,
                  pat_context = map (\<lambda>i. JSON_stringify (int_metadata i)) ?xs \<rparr>]"
    by (simp add: consolidate_def learningPatterns_consolidate_memory new_manager_def
        initializeMemory_def fp len findDecisionPatterns_def decay_pattern_def ms_per_day_def)
  with st show ?thesis by blast
qed

theorem four_positive_emails_witness:
  "\<exists>mgr. store_all (new_manager ''agent'') (replicate 4 email_write) = Inr mgr
      \<and> learningPatterns (longTerm (memory (consolidate env0 mgr))) =
               [\<lparr> pat_id = ''00000000-0000-4000-8000-000000000000'',
                  pattern = ''email_positive'',
                  pat_confidence = 1,
                  applications = 4,
                  successRate = 1,
                  lastUsed = 0,
                  pat_context = replicate 4 (JSON_stringify None) \<rparr>]"
proof -
  have h1: "\<forall>w\<in>set (replicate 4 email_write). stores_interaction ''email'' ''positive'' w"
    by (simp add: email_write_def email0_def)
  have h2: "length (replicate 4 email_write) = 4"
    by simp
  have w: "written_interactions (replicate 4 email_write) = replicate 4 email0"
    by (simp add: written_interactions_def email_write_def eval_nat_numeral)
  from four_positive_emails_one_pattern [OF h1 h2, of "''agent''" env0] show ?thesis
    by (simp add: w env0_def email0_def)
qed
section \<open>Decay\<close>

lemma decay_filter_append:
  "filter (\<lambda>p. pat_confidence p > 0.1) (map (decay_pattern t) (xs @ ys)) =
   filter (\<lambda>p. pat_confidence p > 0.1) (map (decay_pattern t) xs)
   @ filter (\<lambda>p. pat_confidence p > 0.1) (map (decay_pattern t) ys)"
  by simp

lemma decay_stale:
  assumes "\<forall>p\<in>set ps. stale e p"
  shows "filter (\<lambda>p. pat_confidence p > 0.1) (map (decay_pattern (now e)) ps) = decayed 1 ps"
  using assms
  by (induction ps) (auto simp: decayed_def decay_pattern_def stale_def ms_per_day_def)

lemma power_below:
  fixes c q d :: real
  assumes q: "0 < q" "q \<le> 1" and d: "0 \<le> d" and gt: "c * q ^ Suc j > d"
  shows "c * q > d"
proof -
  have p: "0 < q ^ Suc j" using q(1) by (rule zero_less_power)
  have c: "c > 0"
  proof (rule ccontr)
    assume "\<not> c > 0"
    then have "c \<le> 0" by simp
    then have "c * q ^ Suc j \<le> 0"
      using p by (intro mult_nonpos_nonneg) simp_all
    with gt d show False by linarith
  qed
  have "q ^ j \<le> 1"
    using q by (intro power_le_one) simp_all
  then have "(c * q) * q ^ j \<le> (c * q) * 1"
    using c q(1) by (intro mult_left_mono) simp_all
  moreover have "c * q ^ Suc j = (c * q) * q ^ j"
    by simp
  ultimately show ?thesis
    using gt by linarith
qed

lemma strict_decrease:
  fixes c q :: real
  assumes "0 < c" "0 < q" "q < 1"
  shows "c * q ^ Suc k < c * q ^ k"
proof -
  have "0 < q ^ k" using assms(2) by (rule zero_less_power)
  then have "q * q ^ k < 1 * q ^ k"
    using assms(3) by (intro mult_strict_right_mono)
  then have "q ^ Suc k < q ^ k" by simp
  then show ?thesis
    using assms(1) by (intro mult_strict_left_mono)
qed

lemma decay_reaches_floor:
  fixes c q d :: real
  assumes q: "0 \<le> q" "q < 1" and d: "0 < d"
  shows "\<exists>K. \<forall>k\<ge>K. c * q ^ k \<le> d"
proof (cases "c > 0")
  case False
  have "c * q ^ k \<le> d" for k
  proof -
    have "0 \<le> q ^ k" using q(1) by (rule zero_le_power)
    with False have "c * q ^ k \<le> 0"
      by (intro mult_nonpos_nonneg) simp_all
    with d show ?thesis by linarith
  qed
  then show ?thesis by blast
next
  case True
  with d have "0 < d / c" by simp
  from real_arch_pow_inv [OF this q(2)] obtain n where n: "q ^ n < d / c"
    by auto
  have "c * q ^ k \<le> d" if "k \<ge> n" for k
  proof -
    have "q ^ k \<le> q ^ n"
      using that q by (intro power_decreasing) simp_all
    with n have "q ^ k < d / c" by linarith
    then have "q ^ k * c < d"
      using True by (simp only: pos_less_divide_eq)
    then show ?thesis by (simp add: mult.commute)
  qed
  then show ?thesis by blast
qed

lemma decayed_step:
  fixes q :: real
  assumes q: "0 < q" "q \<le> 1"
  shows "map (\<lambda>p. p\<lparr>pat_confidence := pat_confidence p * q ^ j\<rparr>)
           (filter (\<lambda>p. pat_confidence p * q ^ j > 0.1)
             (map (\<lambda>p. p\<lparr>pat_confidence := pat_confidence p * q\<rparr>)
               (filter (\<lambda>p. pat_confidence p * q > 0.1) ps)))
         = map (\<lambda>p. p\<lparr>pat_confidence := pat_confidence p * q ^ Suc j\<rparr>)
             (filter (\<lambda>p. pat_confidence p * q ^ Suc j > 0.1) ps)"
proof (induction ps)
  case Nil
  then show ?case by simp
next
  case (Cons p ps)
  have a: "pat_confidence p * q > 0.1" if "pat_confidence p * q ^ Suc j > 0.1"
    using power_below [OF q _ that] by simp
  have b: "pat_confidence p * q * q ^ j = pat_confidence p * q ^ Suc j"
    by simp
  show ?case
  proof (cases "pat_confidence p * q ^ Suc j > 0.1")
    case True
    with a have "pat_confidence p * q > 0.1" by simp
    with True Cons.IH show ?thesis
      by (simp add: b del: power_Suc)
  next
    case False
    with Cons.IH show ?thesis
      by (simp add: b del: power_Suc)
  qed
qed

lemma decayed_decayed: "decayed j (decayed (Suc 0) ps) = decayed (Suc j) ps"
  unfolding decayed_def using decayed_step [of "0.95" j ps] by simp

lemma stale_decayed:
  "\<forall>p\<in>set ps. stale e p \<Longrightarrow> \<forall>p\<in>set (decayed k ps). stale e p"
  by (auto simp: decayed_def stale_def)

lemma decayed_0: "\<forall>p\<in>set ps. pat_confidence p > 0.1 \<Longrightarrow> decayed 0 ps = ps"
  by (induction ps) (simp_all add: decayed_def)

lemma decayed_above: "\<forall>p\<in>set (decayed k ps). pat_confidence p > 0.1"
  by (auto simp: decayed_def)

lemma learningPatterns_consolidate:
  "learningPatterns (longTerm (memory (consolidate e mgr))) =
    filter (\<lambda>p. pat_confidence p > 0.1)
      (map (decay_pattern (now e))
        (learningPatterns (longTerm (memory mgr))
          @ findInteractionPatterns e (successfulInteractions (episodic (memory mgr)))
          @ findDecisionPatterns e (decisionOutcomes (episodic (memory mgr)))))"
  by (simp add: consolidate_def learningPatterns_consolidate_memory)

lemma consolidate_times_prefix:
  assumes "learningPatterns (longTerm (memory mgr)) = old @ extra"
    and "\<forall>e\<in>set es. \<forall>p\<in>set old. stale e p"
    and "\<forall>p\<in>set old. pat_confidence p > 0.1"
  shows "\<exists>fresh. learningPatterns (longTerm (memory (consolidate_times es mgr)))
           = decayed (length es) old @ fresh"
  using assms
proof (induction es arbitrary: mgr old extra)
  case Nil
  then show ?case by (simp add: consolidate_times_def decayed_0)
next
  case (Cons e es)
  let ?new = "findInteractionPatterns e (successfulInteractions (episodic (memory mgr)))
          @ findDecisionPatterns e (decisionOutcomes (episodic (memory mgr)))"
  let ?extra1 = "filter (\<lambda>p. pat_confidence p > 0.1) (map (decay_pattern (now e)) (extra @ ?new))"
  from Cons.prems(2) have st: "\<forall>p\<in>set old. stale e p" by simp
  have lp1: "learningPatterns (longTerm (memory (consolidate e mgr))) = decayed 1 old @ ?extra1"
    unfolding learningPatterns_consolidate Cons.prems(1)
    using decay_stale [OF st] by simp
  have st1: "\<forall>e'\<in>set es. \<forall>p\<in>set (decayed 1 old). stale e' p"
    using Cons.prems(2) stale_decayed [of old _ 1] by (metis list.set_intros(2))
  from Cons.IH [OF lp1 st1 decayed_above] obtain fresh where
    "learningPatterns (longTerm (memory (consolidate_times es (consolidate e mgr))))
       = decayed (length es) (decayed 1 old) @ fresh" ..
  then show ?case
    by (simp add: consolidate_times_def decayed_decayed)
qed

lemma consolidate_times_decayed:
  assumes "es \<noteq> []"
    and "\<forall>e\<in>set es. \<forall>p\<in>set (learningPatterns (longTerm (memory mgr))). stale e p"
  shows "\<exists>fresh. learningPatterns (longTerm (memory (consolidate_times es mgr)))
           = decayed (length es) (learningPatterns (longTerm (memory mgr))) @ fresh"
proof -
  from assms(1) obtain e es' where es: "es = e # es'" by (cases es) auto
  let ?old = "learningPatterns (longTerm (memory mgr))"
  let ?new = "findInteractionPatterns e (successfulInteractions (episodic (memory mgr)))
          @ findDecisionPatterns e (decisionOutcomes (episodic (memory mgr)))"
  let ?extra1 = "filter (\<lambda>p. pat_confidence p > 0.1) (map (decay_pattern (now e)) ?new)"
  from assms(2) have st: "\<forall>p\<in>set ?old. stale e p" by (simp add: es)
  have lp1: "learningPatterns (longTerm (memory (consolidate e mgr))) = decayed 1 ?old @ ?extra1"
    unfolding learningPatterns_consolidate
    using decay_stale [OF st] by simp
  have st1: "\<forall>e'\<in>set es'. \<forall>p\<in>set (decayed 1 ?old). stale e' p"
    using assms(2) stale_decayed [of ?old _ 1] unfolding es by (metis list.set_intros(2))
  from consolidate_times_prefix [OF lp1 st1 decayed_above] obtain fresh where
    "learningPatterns (longTerm (memory (consolidate_times es' (consolidate e mgr))))
       = decayed (length es') (decayed 1 ?old) @ fresh" ..
  then show ?thesis
    by (simp add: es consolidate_times_def decayed_decayed)
qed

lemma length_learn: "length (learn e nodes l) \<ge> length nodes"
proof -
  have "length (bump_first c t ns) = length ns" for c t ns
    by (induction ns) simp_all
  then show ?thesis
    by (simp add: learn_def split: option.split)
qed

lemma length_foldl_learn: "length (foldl (learn e) nodes ls) \<ge> length nodes"
proof (induction ls arbitrary: nodes)
  case Nil
  then show ?case by simp
next
  case (Cons l ls)
  have "length nodes \<le> length (learn e nodes l)" by (rule length_learn)
  also have "\<dots> \<le> length (foldl (learn e) (learn e nodes l) ls)" by (rule Cons.IH)
  finally show ?case by simp
qed

lemma domainKnowledge_consolidate:
  "domainKnowledge (semantic (memory (consolidate e mgr))) =
     map (decay_node (now e))
       (foldl (learn e) (domainKnowledge (semantic (memory mgr)))
          (filter (\<lambda>learning. now e - cl_timestamp learning < 7 * 24 * 60 * 60 * 1000)
             (contextualLearnings (episodic (memory mgr)))))"
  by (simp add: consolidate_def consolidate_memory_def applyMemoryDecay_def updateSemanticKnowledge_def
      updateConceptRelationships_def extractPatternsFromEpisodic_def consolidateShortToLong_def Let_def)

text \<open>
  C5. Each call of \<^verbatim>\<open>consolidate\<close> multiplies by 0.95 the confidence of every learning pattern
  (those it has just extracted included) whose \<open>lastUsed\<close> is more than 30 days old, and then
  deletes every pattern whose confidence is at most 0.1. Over repeated calls the patterns
  that stay older than 30 days keep their place at the head of the list with the
  confidence multiplied once per call, strictly less each time, until it is at most 0.1
  and the pattern is deleted, which happens after finitely many calls. Every knowledge
  node whose \<open>lastUpdated\<close> is more than 60 days old when the decay step runs has its
  confidence multiplied by 0.95, and no node is deleted.
\<close>

theorem decay_on_consolidate:
  "learningPatterns (longTerm (memory (consolidate e mgr))) =
     filter (\<lambda>p. pat_confidence p > 0.1)
       (map (\<lambda>p. if real_of_int (now e - lastUsed p) / (1000 * 60 * 60 * 24) > 30
                  then p\<lparr>pat_confidence := pat_confidence p * 0.95\<rparr> else p)
         (learningPatterns (longTerm (memory mgr))
           @ findInteractionPatterns e (successfulInteractions (episodic (memory mgr)))
           @ findDecisionPatterns e (decisionOutcomes (episodic (memory mgr)))))
   \<and> (es \<noteq> [] \<and> (\<forall>e\<in>set es. \<forall>p\<in>set (learningPatterns (longTerm (memory mgr))). stale e p)
        \<longrightarrow> (\<exists>fresh. learningPatterns (longTerm (memory (consolidate_times es mgr))) =
               map (\<lambda>p. p\<lparr>pat_confidence := pat_confidence p * 0.95 ^ length es\<rparr>)
                 (filter (\<lambda>p. pat_confidence p * 0.95 ^ length es > 0.1)
                    (learningPatterns (longTerm (memory mgr))))
               @ fresh))
   \<and> (\<forall>c k. (0::real) < c \<longrightarrow> c * 0.95 ^ Suc k < c * 0.95 ^ k)
   \<and> (\<forall>c::real. \<exists>K. \<forall>k\<ge>K. c * 0.95 ^ k \<le> 0.1)
   \<and> domainKnowledge (semantic (applyMemoryDecay e m)) =
       map (\<lambda>n. if real_of_int (now e - lastUpdated n) / (1000 * 60 * 60 * 24) > 60
                 then n\<lparr>node_confidence := node_confidence n * 0.95\<rparr> else n)
         (domainKnowledge (semantic m))
   \<and> length (domainKnowledge (semantic (memory (consolidate e mgr))))
       \<ge> length (domainKnowledge (semantic (memory mgr)))"
proof (intro conjI)
  have dp: "decay_pattern (now e) = (\<lambda>p. if real_of_int (now e - lastUsed p) / (1000 * 60 * 60 * 24) > 30
                  then p\<lparr>pat_confidence := pat_confidence p * 0.95\<rparr> else p)"
    by (rule ext) (simp add: decay_pattern_def ms_per_day_def)
  show "learningPatterns (longTerm (memory (consolidate e mgr))) =
     filter (\<lambda>p. pat_confidence p > 0.1)
       (map (\<lambda>p. if real_of_int (now e - lastUsed p) / (1000 * 60 * 60 * 24) > 30
                  then p\<lparr>pat_confidence := pat_confidence p * 0.95\<rparr> else p)
         (learningPatterns (longTerm (memory mgr))
           @ findInteractionPatterns e (successfulInteractions (episodic (memory mgr)))
           @ findDecisionPatterns e (decisionOutcomes (episodic (memory mgr)))))"
    unfolding learningPatterns_consolidate dp ..
next
  show "es \<noteq> [] \<and> (\<forall>e\<in>set es. \<forall>p\<in>set (learningPatterns (longTerm (memory mgr))). stale e p)
        \<longrightarrow> (\<exists>fresh. learningPatterns (longTerm (memory (consolidate_times es mgr))) =
               map (\<lambda>p. p\<lparr>pat_confidence := pat_confidence p * 0.95 ^ length es\<rparr>)
                 (filter (\<lambda>p. pat_confidence p * 0.95 ^ length es > 0.1)
                    (learningPatterns (longTerm (memory mgr))))
               @ fresh)"
    using consolidate_times_decayed [of es mgr] by (simp add: decayed_def)
next
  show "\<forall>c k. (0::real) < c \<longrightarrow> c * 0.95 ^ Suc k < c * 0.95 ^ k"
    using strict_decrease [of _ "0.95"] by simp
next
  show "\<forall>c::real. \<exists>K. \<forall>k\<ge>K. c * 0.95 ^ k \<le> 0.1"
    using decay_reaches_floor [of "0.95" "0.1"] by simp
next
  have dn: "decay_node (now e) = (\<lambda>n. if real_of_int (now e - lastUpdated n) / (1000 * 60 * 60 * 24) > 60
                 then n\<lparr>node_confidence := node_confidence n * 0.95\<rparr> else n)"
    by (rule ext) (simp add: decay_node_def ms_per_day_def)
  show "domainKnowledge (semantic (applyMemoryDecay e m)) =
       map (\<lambda>n. if real_of_int (now e - lastUpdated n) / (1000 * 60 * 60 * 24) > 60
                 then n\<lparr>node_confidence := node_confidence n * 0.95\<rparr> else n)
         (domainKnowledge (semantic m))"
    by (simp add: applyMemoryDecay_def dn)
next
  show "length (domainKnowledge (semantic (memory (consolidate e mgr))))
       \<ge> length (domainKnowledge (semantic (memory mgr)))"
    by (simp add: domainKnowledge_consolidate length_foldl_learn)
qed

theorem decay_on_consolidate_witness:
  "\<exists>fresh. learningPatterns (longTerm (memory (consolidate_times [late_env, late_env] seasoned)))
      = old_pattern\<lparr>pat_confidence := 0.45125\<rparr> # fresh"
proof -
  have st: "stale late_env old_pattern"
    by (simp add: stale_def late_env_def old_pattern_def)
  have lp: "learningPatterns (longTerm (memory seasoned)) = [old_pattern]"
    by (simp add: seasoned_def)
  have c: "pat_confidence old_pattern = 0.5"
    by (simp add: old_pattern_def)
  from decay_on_consolidate [of late_env seasoned "[late_env, late_env]"] st
  have "\<exists>fresh. learningPatterns (longTerm (memory (consolidate_times [late_env, late_env] seasoned))) =
               map (\<lambda>p. p\<lparr>pat_confidence := pat_confidence p * 0.95 ^ length [late_env, late_env]\<rparr>)
                 (filter (\<lambda>p. pat_confidence p * 0.95 ^ length [late_env, late_env] > 0.1)
                    (learningPatterns (longTerm (memory seasoned))))
               @ fresh"
    by (simp add: lp)
  then show ?thesis
    unfolding lp by (simp add: c)
qed
section \<open>Compression and the integrity of relationships\<close>

lemma keep_unique_invariant:
  "set (map snd (foldl keep_unique u rs)) \<subseteq> set (map snd u) \<union> set rs"
proof (induction rs arbitrary: u)
  case Nil
  then show ?case by simp
next
  case (Cons r rs)
  have "set (map snd (keep_unique u r)) \<subseteq> set (map snd u) \<union> {r}"
    by (auto simp: keep_unique_def)
  with Cons.IH [of "keep_unique u r"] show ?case by auto
qed

lemma same_link_keys:
  "same_link a b \<Longrightarrow> rel_key a = rel_key b \<or> rel_key a = rel_reverseKey b"
  by (auto simp: same_link_def rel_key_def rel_reverseKey_def)

lemma keep_unique_distinct:
  assumes "\<forall>(k, r)\<in>set u. k = rel_key r"
    and "sorted_wrt (\<lambda>a b. \<not> same_link a b) (map snd u)"
  shows "sorted_wrt (\<lambda>a b. \<not> same_link a b) (map snd (foldl keep_unique u rs))"
  using assms
proof (induction rs arbitrary: u)
  case Nil
  then show ?case by simp
next
  case (Cons r rs)
  have k: "\<forall>(k, r)\<in>set (keep_unique u r). k = rel_key r"
    using Cons.prems(1) by (auto simp: keep_unique_def)
  have s: "sorted_wrt (\<lambda>a b. \<not> same_link a b) (map snd (keep_unique u r))"
  proof (cases "\<not> map_has u (rel_key r) \<and> \<not> map_has u (rel_reverseKey r)")
    case False
    then show ?thesis
      using Cons.prems(2) by (auto simp: keep_unique_def)
  next
    case True
    have "\<not> same_link r' r" if "r' \<in> set (map snd u)" for r'
    proof
      assume sl: "same_link r' r"
      from that obtain k where "(k, r') \<in> set u" by auto
      with Cons.prems(1) have "(rel_key r', r') \<in> set u" by auto
      then have "map_has u (rel_key r')"
        by (force simp: map_has_def)
      with same_link_keys [OF sl] True show False by auto
    qed
    with True Cons.prems(2) show ?thesis
      by (simp add: keep_unique_def sorted_wrt_append)
  qed
  from Cons.IH [OF k s] show ?case by simp
qed

lemma cleanupRelationships_integrity: "relationship_integrity (cleanupRelationships m)"
proof -
  let ?ids = "set (map node_id (domainKnowledge (semantic m)))"
  let ?existing = "filter (\<lambda>rel. source rel \<in> ?ids \<and> target rel \<in> ?ids) (relationships (semantic m))"
  have dk: "domainKnowledge (semantic (cleanupRelationships m)) = domainKnowledge (semantic m)"
    by (simp add: cleanupRelationships_def Let_def)
  have rs: "relationships (semantic (cleanupRelationships m)) = map snd (foldl keep_unique [] ?existing)"
    by (simp add: cleanupRelationships_def Let_def)
  have "set (map snd (foldl keep_unique [] ?existing)) \<subseteq> set ?existing"
    using keep_unique_invariant [of "[]" ?existing] by simp
  then have 1: "list_all (\<lambda>rel. source rel \<in> ?ids \<and> target rel \<in> ?ids)
                  (map snd (foldl keep_unique [] ?existing))"
    unfolding list_all_iff by auto
  have 2: "sorted_wrt (\<lambda>a b. \<not> same_link a b) (map snd (foldl keep_unique [] ?existing))"
    by (rule keep_unique_distinct) simp_all
  from 1 2 show ?thesis
    unfolding relationship_integrity_def dk rs by simp
qed

lemma compressMemory_returned_integrity:
  assumes "compressMemory e m = Returned m'"
  shows "relationship_integrity m'"
proof -
  from assms obtain m2 where "m' = cleanupRelationships m2"
    by (auto simp: compressMemory_def split: outcome.splits)
  then show ?thesis
    by (simp add: cleanupRelationships_integrity)
qed

lemma split_space_not_Nil: "split_space s \<noteq> []"
  by (induction s) (auto split: list.splits)

lemma similarity_same_text:
  assumes "concept c1 = concept c2" "description c1 = description c2"
  shows "calculateConceptSimilarity c1 c2 = 1"
proof -
  have w: "concept_words c1 = concept_words c2"
    using assms by (simp add: concept_words_def)
  have ne: "concept_words c2 \<noteq> []"
    by (simp add: concept_words_def split_space_not_Nil)
  let ?w = "remdups (concept_words c2)"
  have "filter (\<lambda>word. word \<in> set ?w) ?w = ?w"
    by (simp add: filter_id_conv)
  moreover have "remdups (?w @ ?w) = ?w"
    by (simp add: remdups_append)
  moreover have "length ?w > 0"
    using ne by simp
  ultimately show ?thesis
    by (simp add: calculateConceptSimilarity_def w Let_def remdups_remdups)
qed

lemma twin_similarity: "calculateConceptSimilarity (twin a) (twin b) = 1"
  by (rule similarity_same_text) (simp_all add: twin_def)

lemma compressEpisodicMemory_no_interactions:
  "successfulInteractions (episodic m) = [] \<Longrightarrow> compressEpisodicMemory e m = m"
  by (simp add: compressEpisodicMemory_def groupSimilarInteractions_def)

lemma triplets_toMerge:
  "filter (\<lambda>(i, j). calculateConceptSimilarity ([twin ''n1'', twin ''n2'', twin ''n3''] ! i)
                 ([twin ''n1'', twin ''n2'', twin ''n3''] ! j) > 0.8)
     (pair_indices (length [twin ''n1'', twin ''n2'', twin ''n3'']))
   = [(0, 1), (0, 2), (1, 2)]"
  by (simp add: pair_indices_def eval_nat_numeral upt_rec twin_similarity)

lemma triplets_merge_all:
  "merge_all [twin ''n1'', twin ''n2'', twin ''n3''] (rev [(0, 1), (0, 2), (1, 2)])
      = ([twin ''n1'', (twin ''n2'')\<lparr>description := ''discount rules discount rules''\<rparr>], False)"
proof -
  have r: "rev [(0, 1), (0, 2), (1, 2)] = [(1, 2), (0, 2), (0::nat, 1::nat)]"
    by simp
  have m1: "merge_pair [twin ''n1'', twin ''n2'', twin ''n3''] (1, 2)
      = Some [twin ''n1'', (twin ''n2'')\<lparr>description := ''discount rules discount rules''\<rparr>]"
    by (simp add: merge_pair_def twin_def Let_def)
  have m2: "merge_pair [twin ''n1'', (twin ''n2'')\<lparr>description := ''discount rules discount rules''\<rparr>] (0, 2)
      = None"
    by (simp add: merge_pair_def)
  show ?thesis
    by (simp only: r merge_all.simps m1 m2 option.case)
qed

text \<open>
  C7 states that after every call of \<^verbatim>\<open>compressMemory\<close> no relationship refers to a concept
  id that is absent from \<open>domainKnowledge\<close>. With three knowledge nodes of the same text the
  call does not get as far as the clean-up: \<^verbatim>\<open>mergeSemanticConcepts\<close> merges the pair (1, 2),
  removes the node at index 2, and then reads index 2 again for the pair (0, 2), which
  throws. The memory held relationships between existing nodes only before the call; after
  it the relationship from \<open>n1\<close> to \<open>n3\<close> refers to a node that the call has removed.
\<close>

theorem compressMemory_throws_and_leaves_dangling:
  "compressMemory env0 triplets =
     TypeError (triplets\<lparr>semantic := (semantic triplets)\<lparr>domainKnowledge :=
        [twin ''n1'',
         (twin ''n2'')\<lparr>description := ''discount rules discount rules''\<rparr>]\<rparr>\<rparr>)
   \<and> relationship_integrity triplets
   \<and> \<not> relationship_integrity (triplets\<lparr>semantic := (semantic triplets)\<lparr>domainKnowledge :=
        [twin ''n1'',
         (twin ''n2'')\<lparr>description := ''discount rules discount rules''\<rparr>]\<rparr>\<rparr>)"
proof (intro conjI)
  have ce: "compressEpisodicMemory env0 triplets = triplets"
    by (rule compressEpisodicMemory_no_interactions) (simp add: triplets_def initializeMemory_def)
  have dk: "domainKnowledge (semantic triplets) = [twin ''n1'', twin ''n2'', twin ''n3'']"
    by (simp add: triplets_def)
  have mg: "mergeSemanticConcepts triplets =
     TypeError (triplets\<lparr>semantic := (semantic triplets)\<lparr>domainKnowledge :=
        [twin ''n1'',
         (twin ''n2'')\<lparr>description := ''discount rules discount rules''\<rparr>]\<rparr>\<rparr>)"
    by (simp only: mergeSemanticConcepts_def Let_def dk triplets_toMerge triplets_merge_all
        prod.case if_False)
  show "compressMemory env0 triplets =
     TypeError (triplets\<lparr>semantic := (semantic triplets)\<lparr>domainKnowledge :=
        [twin ''n1'',
         (twin ''n2'')\<lparr>description := ''discount rules discount rules''\<rparr>]\<rparr>\<rparr>)"
    by (simp only: compressMemory_def ce mg outcome.case)
  show "relationship_integrity triplets"
    by (simp add: relationship_integrity_def triplets_def twin_def)
  show "\<not> relationship_integrity (triplets\<lparr>semantic := (semantic triplets)\<lparr>domainKnowledge :=
        [twin ''n1'',
         (twin ''n2'')\<lparr>description := ''discount rules discount rules''\<rparr>]\<rparr>\<rparr>)"
    by (simp add: relationship_integrity_def triplets_def twin_def)
qed

text \<open>
  When \<^verbatim>\<open>compressMemory\<close> returns, no relationship refers to a concept id that is absent from
  \<open>domainKnowledge\<close>, and no two relationships connect the same unordered pair of concept ids
  with the same type.
\<close>

theorem compressMemory_integrity_when_returned:
  assumes "compressMemory e m = Returned m'"
  shows "relationship_integrity m'"
  using assms by (rule compressMemory_returned_integrity)

theorem compressMemory_integrity_witness:
  "compressMemory env0 twins =
     Returned (twins\<lparr>semantic := (semantic twins)\<lparr>
        domainKnowledge := [(twin ''n1'')\<lparr>description := ''discount rules discount rules''\<rparr>],
        relationships := []\<rparr>\<rparr>)
   \<and> relationship_integrity (twins\<lparr>semantic := (semantic twins)\<lparr>
        domainKnowledge := [(twin ''n1'')\<lparr>description := ''discount rules discount rules''\<rparr>],
        relationships := []\<rparr>\<rparr>)"
proof -
  have ce: "compressEpisodicMemory env0 twins = twins"
    by (rule compressEpisodicMemory_no_interactions) (simp add: twins_def initializeMemory_def)
  have dk: "domainKnowledge (semantic twins) = [twin ''n1'', twin ''n2'']"
    by (simp add: twins_def)
  have tm: "filter (\<lambda>(i, j). calculateConceptSimilarity ([twin ''n1'', twin ''n2''] ! i)
                 ([twin ''n1'', twin ''n2''] ! j) > 0.8) (pair_indices (length [twin ''n1'', twin ''n2'']))
             = [(0, 1)]"
    by (simp add: pair_indices_def eval_nat_numeral upt_rec twin_similarity)
  have m1: "merge_pair [twin ''n1'', twin ''n2''] (0, 1)
      = Some [(twin ''n1'')\<lparr>description := ''discount rules discount rules''\<rparr>]"
    by (simp add: merge_pair_def twin_def Let_def)
  have ma: "merge_all [twin ''n1'', twin ''n2''] (rev [(0, 1)])
      = ([(twin ''n1'')\<lparr>description := ''discount rules discount rules''\<rparr>], True)"
    by (simp only: rev.simps append_Nil merge_all.simps m1 option.case)
  have mg: "mergeSemanticConcepts twins =
     Returned (twins\<lparr>semantic := (semantic twins)\<lparr>
        domainKnowledge := [(twin ''n1'')\<lparr>description := ''discount rules discount rules''\<rparr>]\<rparr>\<rparr>)"
    by (simp only: mergeSemanticConcepts_def Let_def dk tm ma prod.case if_True)
  have cl: "cleanupRelationships (twins\<lparr>semantic := (semantic twins)\<lparr>
        domainKnowledge := [(twin ''n1'')\<lparr>description := ''discount rules discount rules''\<rparr>]\<rparr>\<rparr>)
      = twins\<lparr>semantic := (semantic twins)\<lparr>
        domainKnowledge := [(twin ''n1'')\<lparr>description := ''discount rules discount rules''\<rparr>],
        relationships := []\<rparr>\<rparr>"
    by (simp add: cleanupRelationships_def twins_def twin_def)
  have r: "compressMemory env0 twins =
     Returned (twins\<lparr>semantic := (semantic twins)\<lparr>
        domainKnowledge := [(twin ''n1'')\<lparr>description := ''discount rules discount rules''\<rparr>],
        relationships := []\<rparr>\<rparr>)"
    by (simp only: compressMemory_def ce mg cl outcome.case)
  from compressMemory_integrity_when_returned [OF r] r show ?thesis by simp
qed
section \<open>Linking of related concepts\<close>

lemma find_None_filter: "(find P xs = None) = (filter P xs = [])"
  by (auto simp: find_None_iff filter_empty_conv)

lemma link_step_eq:
  "link_step e aid cs rels (i, j) =
    (if calculateConceptSimilarity (cs ! i) (cs ! j) > 0.6
        \<and> filter (connects (node_id (cs ! i)) (node_id (cs ! j))) rels = []
     then rels @ [link_of e aid cs i j] else rels)"
proof (cases "find (connects (node_id (cs ! i)) (node_id (cs ! j))) rels")
  case None
  then show ?thesis
    using find_None_filter [of "connects (node_id (cs ! i)) (node_id (cs ! j))" rels]
    by (simp add: link_step_def link_of_def Let_def)
next
  case (Some r)
  then have "filter (connects (node_id (cs ! i)) (node_id (cs ! j))) rels \<noteq> []"
    using find_None_filter [of "connects (node_id (cs ! i)) (node_id (cs ! j))" rels] by simp
  with Some show ?thesis
    by (simp add: link_step_def link_of_def Let_def)
qed

lemma connects_link_of:
  "connects x y (link_of e aid cs i j) =
    ((node_id (cs ! i) = x \<and> node_id (cs ! j) = y) \<or> (node_id (cs ! i) = y \<and> node_id (cs ! j) = x))"
  by (simp add: connects_def link_of_def)

lemma connects_sym: "connects x y = connects y x"
  by (rule ext) (auto simp: connects_def)

text \<open>A pair of ids that is connected already gets no further relationship.\<close>

lemma link_step_connected:
  assumes "filter (connects x y) rels \<noteq> []"
  shows "filter (connects x y) (link_step e aid cs rels (i, j)) = filter (connects x y) rels"
proof (cases "connects x y (link_of e aid cs i j)")
  case False
  then show ?thesis by (simp add: link_step_eq)
next
  case True
  then have "connects (node_id (cs ! i)) (node_id (cs ! j)) = connects x y"
    unfolding connects_link_of using connects_sym [of x y] by auto
  with assms show ?thesis by (simp add: link_step_eq)
qed

lemma foldl_link_step_connected:
  assumes "filter (connects x y) rels \<noteq> []"
  shows "filter (connects x y) (foldl (link_step e aid cs) rels ps) = filter (connects x y) rels"
  using assms
proof (induction ps arbitrary: rels)
  case Nil
  then show ?case by simp
next
  case (Cons p ps)
  obtain i j where p: "p = (i, j)" by (cases p)
  have s: "filter (connects x y) (link_step e aid cs rels (i, j)) = filter (connects x y) rels"
    by (rule link_step_connected [OF Cons.prems])
  with Cons.prems have "filter (connects x y) (link_step e aid cs rels (i, j)) \<noteq> []" by simp
  from Cons.IH [OF this] s show ?case by (simp add: p)
qed

lemma mem_pair_indices: "((i, j) \<in> set (pair_indices n)) = (i < j \<and> j < n)"
proof
  assume "(i, j) \<in> set (pair_indices n)"
  then show "i < j \<and> j < n" by (auto simp: pair_indices_def)
next
  assume a: "i < j \<and> j < n"
  then have "i \<in> set [0 ..< n]" "(i, j) \<in> set (map (\<lambda>j. (i, j)) [Suc i ..< n])"
    by auto
  then show "(i, j) \<in> set (pair_indices n)"
    unfolding pair_indices_def set_concat by (intro UN_I [of "map (\<lambda>j. (i, j)) [Suc i ..< n]"]) auto
qed

lemma distinct_pair_indices: "distinct (pair_indices n)"
proof -
  have "distinct (concat (map (\<lambda>i. map (\<lambda>j. (i, j)) [Suc i ..< n]) [0 ..< m]))" for m
  proof (induction m)
    case 0
    then show ?case by simp
  next
    case (Suc m)
    have "distinct (map (\<lambda>j. (m, j)) [Suc m ..< n])"
      by (simp add: distinct_map inj_on_def)
    with Suc show ?case by (auto simp: distinct_map)
  qed
  then show ?thesis by (simp add: pair_indices_def)
qed

text \<open>With distinct ids, only the pair \<open>(i, j)\<close> itself can connect the ids of \<open>i\<close> and \<open>j\<close>.\<close>

lemma link_step_other_pair:
  assumes d: "distinct (map node_id cs)"
    and ij: "i < j" "j < length cs"
    and ab: "a < b" "b < length cs"
    and ne: "(a, b) \<noteq> (i, j)"
  shows "filter (connects (node_id (cs ! i)) (node_id (cs ! j))) (link_step e aid cs rels (a, b))
       = filter (connects (node_id (cs ! i)) (node_id (cs ! j))) rels"
proof -
  have inj: "node_id (cs ! p) = node_id (cs ! q) \<Longrightarrow> p = q" if "p < length cs" "q < length cs" for p q
    using nth_eq_iff_index_eq [OF d, of p q] that by simp
  have "\<not> connects (node_id (cs ! i)) (node_id (cs ! j)) (link_of e aid cs a b)"
  proof
    assume "connects (node_id (cs ! i)) (node_id (cs ! j)) (link_of e aid cs a b)"
    then consider "node_id (cs ! a) = node_id (cs ! i) \<and> node_id (cs ! b) = node_id (cs ! j)"
      | "node_id (cs ! a) = node_id (cs ! j) \<and> node_id (cs ! b) = node_id (cs ! i)"
      unfolding connects_link_of by blast
    then show False
    proof cases
      case 1
      with inj [of a i] inj [of b j] ij ab have "a = i" "b = j" by simp_all
      with ne show False by simp
    next
      case 2
      with inj [of a j] inj [of b i] ij ab have "a = j" "b = i" by simp_all
      with ij ab show False by simp
    qed
  qed
  then show ?thesis by (simp add: link_step_eq)
qed

lemma foldl_link_step_pair:
  assumes d: "distinct (map node_id cs)"
    and ij: "i < j" "j < length cs"
    and ps: "distinct ps" "\<forall>(a, b)\<in>set ps. a < b \<and> b < length cs"
  shows "filter (connects (node_id (cs ! i)) (node_id (cs ! j))) (foldl (link_step e aid cs) rels ps)
       = (if (i, j) \<in> set ps \<and> calculateConceptSimilarity (cs ! i) (cs ! j) > 0.6
             \<and> filter (connects (node_id (cs ! i)) (node_id (cs ! j))) rels = []
          then [link_of e aid cs i j]
          else filter (connects (node_id (cs ! i)) (node_id (cs ! j))) rels)"
  using ps
proof (induction ps arbitrary: rels)
  case Nil
  then show ?case by simp
next
  case (Cons p ps)
  let ?F = "filter (connects (node_id (cs ! i)) (node_id (cs ! j)))"
  obtain a b where p: "p = (a, b)" by (cases p)
  from Cons.prems have ab: "a < b" "b < length cs" and dps: "distinct ps"
    and rest: "\<forall>(a, b)\<in>set ps. a < b \<and> b < length cs" and notin: "(a, b) \<notin> set ps"
    by (auto simp: p)
  note IH = Cons.IH [OF dps rest]
  show ?case
  proof (cases "(a, b) = (i, j)")
    case True
    then have eq: "a = i" "b = j" by simp_all
    have c: "connects (node_id (cs ! i)) (node_id (cs ! j)) (link_of e aid cs i j)"
      by (simp add: connects_link_of)
    show ?thesis
    proof (cases "calculateConceptSimilarity (cs ! i) (cs ! j) > 0.6 \<and> ?F rels = []")
      case True
      then have s: "link_step e aid cs rels (i, j) = rels @ [link_of e aid cs i j]"
        by (simp add: link_step_eq)
      have "?F (rels @ [link_of e aid cs i j]) = [link_of e aid cs i j]"
        using True c by simp
      then have "?F (foldl (link_step e aid cs) (rels @ [link_of e aid cs i j]) ps)
          = [link_of e aid cs i j]"
        using foldl_link_step_connected [of "node_id (cs ! i)" "node_id (cs ! j)"
            "rels @ [link_of e aid cs i j]" e aid cs ps]
        by simp
      with True show ?thesis by (simp add: p eq s)
    next
      case False
      then have s: "link_step e aid cs rels (i, j) = rels"
        by (auto simp: link_step_eq)
      from notin have "(i, j) \<notin> set ps" by (simp add: eq)
      with IH [of rels] False show ?thesis by (auto simp: p eq s)
    qed
  next
    case False
    have s: "?F (link_step e aid cs rels (a, b)) = ?F rels"
      by (rule link_step_other_pair [OF d ij ab False])
    from False have "((i, j) \<in> set (p # ps)) = ((i, j) \<in> set ps)"
      by (auto simp: p)
    with IH [of "link_step e aid cs rels (a, b)"] s show ?thesis
      by (simp add: p)
  qed
qed

lemma relationships_consolidate:
  "relationships (semantic (memory (consolidate e mgr))) =
     foldl (link_step e (agentId mgr) (nodes_at_linking e (memory mgr)))
       (relationships (semantic (memory mgr)))
       (pair_indices (length (nodes_at_linking e (memory mgr))))"
  by (simp add: consolidate_def consolidate_memory_def applyMemoryDecay_def updateSemanticKnowledge_def
      updateConceptRelationships_def extractPatternsFromEpisodic_def consolidateShortToLong_def
      nodes_at_linking_def Let_def)

lemma nodes_consolidate:
  "domainKnowledge (semantic (memory (consolidate e mgr))) =
     map (decay_node (now e)) (nodes_at_linking e (memory mgr))"
  by (simp add: domainKnowledge_consolidate nodes_at_linking_def)

lemma decay_node_keeps:
  "node_id (decay_node t n) = node_id n"
  "concept_words (decay_node t n) = concept_words n"
  by (simp_all add: decay_node_def concept_words_def Let_def)

lemma similarity_decay_node:
  "calculateConceptSimilarity (decay_node t a) (decay_node t b) = calculateConceptSimilarity a b"
  by (simp add: calculateConceptSimilarity_def decay_node_keeps)

lemma agentId_consolidate: "agentId (consolidate e mgr) = agentId mgr"
  by (simp add: consolidate_def)

text \<open>
  C6, as it holds on the code. In a call of \<^verbatim>\<open>consolidate\<close> that leaves knowledge nodes
  with pairwise distinct ids, for every pair of nodes whose word-set similarity exceeds
  0.6 and whose ids no relationship of the memory connected, in either direction, before
  the call, exactly one relationship connects the two ids after the call: the one that the
  call has inserted, of type \<^verbatim>\<open>related_to\<close>, from the earlier node to the later, with the
  similarity as its strength. A second call of \<^verbatim>\<open>consolidate\<close> leaves it the only one.
\<close>

theorem related_concepts_linked_once:
  assumes d: "distinct (map node_id (domainKnowledge (semantic (memory (consolidate e mgr)))))"
    and ij: "i < j" "j < length (domainKnowledge (semantic (memory (consolidate e mgr))))"
    and sim: "calculateConceptSimilarity
                (domainKnowledge (semantic (memory (consolidate e mgr))) ! i)
                (domainKnowledge (semantic (memory (consolidate e mgr))) ! j) > 0.6"
    and none: "filter (connects (node_id (domainKnowledge (semantic (memory (consolidate e mgr))) ! i))
                                (node_id (domainKnowledge (semantic (memory (consolidate e mgr))) ! j)))
                 (relationships (semantic (memory mgr))) = []"
  shows "filter (connects (node_id (domainKnowledge (semantic (memory (consolidate e mgr))) ! i))
                          (node_id (domainKnowledge (semantic (memory (consolidate e mgr))) ! j)))
           (relationships (semantic (memory (consolidate e mgr))))
         = [\<lparr> rel_id = uuidv4 e (Relationship_link i j),
              source = node_id (domainKnowledge (semantic (memory (consolidate e mgr))) ! i),
              target = node_id (domainKnowledge (semantic (memory (consolidate e mgr))) ! j),
              rel_type = ''related_to'',
              strength = calculateConceptSimilarity
                (domainKnowledge (semantic (memory (consolidate e mgr))) ! i)
                (domainKnowledge (semantic (memory (consolidate e mgr))) ! j),
              rel_metadata = Some \<lparr> createdAt = now e, meta_agentId = agentId mgr \<rparr> \<rparr>]
       \<and> filter (connects (node_id (domainKnowledge (semantic (memory (consolidate e mgr))) ! i))
                          (node_id (domainKnowledge (semantic (memory (consolidate e mgr))) ! j)))
           (relationships (semantic (memory (consolidate e' (consolidate e mgr)))))
         = filter (connects (node_id (domainKnowledge (semantic (memory (consolidate e mgr))) ! i))
                          (node_id (domainKnowledge (semantic (memory (consolidate e mgr))) ! j)))
           (relationships (semantic (memory (consolidate e mgr))))"
proof -
  let ?K = "nodes_at_linking e (memory mgr)"
  let ?K' = "domainKnowledge (semantic (memory (consolidate e mgr)))"
  have K': "?K' = map (decay_node (now e)) ?K" by (rule nodes_consolidate)
  from ij have j: "j < length ?K" and i: "i < length ?K" by (simp_all add: K')
  have idi: "node_id (?K' ! i) = node_id (?K ! i)" and idj: "node_id (?K' ! j) = node_id (?K ! j)"
    using i j by (simp_all add: K' decay_node_keeps)
  have simK: "calculateConceptSimilarity (?K' ! i) (?K' ! j) = calculateConceptSimilarity (?K ! i) (?K ! j)"
    using i j by (simp add: K' similarity_decay_node)
  have dK: "distinct (map node_id ?K)"
    using d by (simp add: K' comp_def decay_node_keeps)
  have ps: "\<forall>(a, b)\<in>set (pair_indices (length ?K)). a < b \<and> b < length ?K"
    by (auto simp: mem_pair_indices)
  have mem: "(i, j) \<in> set (pair_indices (length ?K))"
    using ij(1) j by (simp add: mem_pair_indices)
  have one: "filter (connects (node_id (?K ! i)) (node_id (?K ! j)))
           (relationships (semantic (memory (consolidate e mgr))))
         = [link_of e (agentId mgr) ?K i j]"
    unfolding relationships_consolidate
    using foldl_link_step_pair [OF dK ij(1) j distinct_pair_indices ps, of e "agentId mgr"
        "relationships (semantic (memory mgr))"]
      mem sim none
    by (simp add: simK idi idj)
  have first: "filter (connects (node_id (?K' ! i)) (node_id (?K' ! j)))
           (relationships (semantic (memory (consolidate e mgr))))
         = [\<lparr> rel_id = uuidv4 e (Relationship_link i j),
              source = node_id (?K' ! i),
              target = node_id (?K' ! j),
              rel_type = ''related_to'',
              strength = calculateConceptSimilarity (?K' ! i) (?K' ! j),
              rel_metadata = Some \<lparr> createdAt = now e, meta_agentId = agentId mgr \<rparr> \<rparr>]"
    unfolding idi idj simK one by (simp add: link_of_def)
  then have ne: "filter (connects (node_id (?K' ! i)) (node_id (?K' ! j)))
           (relationships (semantic (memory (consolidate e mgr)))) \<noteq> []"
    by simp
  have second: "filter (connects (node_id (?K' ! i)) (node_id (?K' ! j)))
           (relationships (semantic (memory (consolidate e' (consolidate e mgr)))))
         = filter (connects (node_id (?K' ! i)) (node_id (?K' ! j)))
           (relationships (semantic (memory (consolidate e mgr))))"
    unfolding relationships_consolidate [of e' "consolidate e mgr"]
    by (rule foldl_link_step_connected [OF ne])
  from first second show ?thesis by blast
qed

lemma crm_words:
  "concept_words crm_a = [''crm'', ''lead'', ''scoring'', ''rules'']"
  "concept_words crm_b = [''crm'', ''lead'', ''scoring'', ''rules'', ''engine'', ''for'', ''email'']"
  "concept_words crm_c = [''crm'', ''lead'', ''scoring'', ''rules'', ''engine'']"
  by (simp_all add: concept_words_def crm_a_def crm_b_def crm_c_def toLowerCase_def)

lemma crm_similarity:
  "calculateConceptSimilarity crm_a crm_b = 4 / 7"
  "calculateConceptSimilarity crm_a crm_c = 4 / 5"
  "calculateConceptSimilarity crm_b crm_c = 5 / 7"
  by (simp_all add: calculateConceptSimilarity_def crm_words)

lemma crm_ids: "node_id crm_a = ''x''" "node_id crm_b = ''x''" "node_id crm_c = ''y''"
  by (simp_all add: crm_a_def crm_b_def crm_c_def)

lemma nodes_at_linking_no_learnings:
  "contextualLearnings (episodic m) = [] \<Longrightarrow> nodes_at_linking e m = domainKnowledge (semantic m)"
  by (simp add: nodes_at_linking_def)

lemma shared_id_nodes:
  "nodes_at_linking env0 (memory shared_id) = [crm_a, crm_b, crm_c]"
  by (simp add: nodes_at_linking_no_learnings shared_id_def initializeMemory_def)

lemma shared_id_after:
  "domainKnowledge (semantic (memory (consolidate env0 shared_id))) = [crm_a, crm_b, crm_c]"
  "relationships (semantic (memory (consolidate env0 shared_id))) =
     [link_of env0 ''agent'' [crm_a, crm_b, crm_c] 0 2]"
proof -
  show "domainKnowledge (semantic (memory (consolidate env0 shared_id))) = [crm_a, crm_b, crm_c]"
    unfolding nodes_consolidate shared_id_nodes
    by (simp add: decay_node_def env0_def crm_a_def crm_b_def crm_c_def ms_per_day_def)
  have p: "pair_indices (length [crm_a, crm_b, crm_c]) = [(0, 1), (0, 2), (1, 2)]"
    by (simp add: pair_indices_def eval_nat_numeral upt_rec)
  have r0: "relationships (semantic (memory shared_id)) = []"
    by (simp add: shared_id_def initializeMemory_def)
  have a: "agentId shared_id = ''agent''"
    by (simp add: shared_id_def)
  have s1: "link_step env0 ''agent'' [crm_a, crm_b, crm_c] [] (0, 1) = []"
    by (simp add: link_step_eq crm_similarity)
  have s2: "link_step env0 ''agent'' [crm_a, crm_b, crm_c] [] (0, 2)
      = [link_of env0 ''agent'' [crm_a, crm_b, crm_c] 0 2]"
    by (simp add: link_step_eq crm_similarity)
  have s3: "link_step env0 ''agent'' [crm_a, crm_b, crm_c]
        [link_of env0 ''agent'' [crm_a, crm_b, crm_c] 0 2] (1, 2)
      = [link_of env0 ''agent'' [crm_a, crm_b, crm_c] 0 2]"
    by (simp add: link_step_eq connects_link_of crm_ids)
  show "relationships (semantic (memory (consolidate env0 shared_id))) =
     [link_of env0 ''agent'' [crm_a, crm_b, crm_c] 0 2]"
    unfolding relationships_consolidate shared_id_nodes p r0 a
    by (simp only: foldl.simps s1 s2 s3)
qed

text \<open>
  C6 as the claim states it, for every pair of nodes, fails where two nodes share an id:
  the nodes at the indices 1 and 2 have similarity 5/7 and no relationship connects their
  ids before the call, yet the only relationship between these ids after the call is the
  one of the nodes at 0 and 2, with strength 4/5.
\<close>

theorem shared_id_pair_gets_no_link:
  "(1::nat) < 2
   \<and> 2 < length (domainKnowledge (semantic (memory (consolidate env0 shared_id))))
   \<and> calculateConceptSimilarity
        (domainKnowledge (semantic (memory (consolidate env0 shared_id))) ! 1)
        (domainKnowledge (semantic (memory (consolidate env0 shared_id))) ! 2) > 0.6
   \<and> filter (connects (node_id (domainKnowledge (semantic (memory (consolidate env0 shared_id))) ! 1))
                        (node_id (domainKnowledge (semantic (memory (consolidate env0 shared_id))) ! 2)))
        (relationships (semantic (memory shared_id))) = []
   \<and> map strength
        (filter (connects (node_id (domainKnowledge (semantic (memory (consolidate env0 shared_id))) ! 1))
                          (node_id (domainKnowledge (semantic (memory (consolidate env0 shared_id))) ! 2)))
           (relationships (semantic (memory (consolidate env0 shared_id)))))
       = [4 / 5]
   \<and> calculateConceptSimilarity
        (domainKnowledge (semantic (memory (consolidate env0 shared_id))) ! 1)
        (domainKnowledge (semantic (memory (consolidate env0 shared_id))) ! 2) = 5 / 7"
proof -
  have r0: "relationships (semantic (memory shared_id)) = []"
    by (simp add: shared_id_def initializeMemory_def)
  show ?thesis
    unfolding shared_id_after r0
    by (simp add: crm_similarity crm_ids connects_link_of)
       (simp add: link_of_def crm_similarity)
qed

theorem related_concepts_witness:
  "filter (connects ''n1'' ''n2'') (relationships (semantic (memory (consolidate env0 pair_mgr))))
     = [\<lparr> rel_id = ''00000000-0000-4000-8000-000000000000'', source = ''n1'', target = ''n2'',
          rel_type = ''related_to'', strength = 1,
          rel_metadata = Some \<lparr> createdAt = 0, meta_agentId = ''agent'' \<rparr> \<rparr>]
   \<and> filter (connects ''n1'' ''n2'')
        (relationships (semantic (memory (consolidate late_env (consolidate env0 pair_mgr)))))
     = [\<lparr> rel_id = ''00000000-0000-4000-8000-000000000000'', source = ''n1'', target = ''n2'',
          rel_type = ''related_to'', strength = 1,
          rel_metadata = Some \<lparr> createdAt = 0, meta_agentId = ''agent'' \<rparr> \<rparr>]"
proof -
  let ?K' = "domainKnowledge (semantic (memory (consolidate env0 pair_mgr)))"
  have K': "?K' = [twin ''n1'', twin ''n2'']"
    unfolding nodes_consolidate
    by (simp add: nodes_at_linking_no_learnings pair_mgr_def initializeMemory_def
        decay_node_def env0_def twin_def ms_per_day_def)
  have ids: "node_id (twin ''n1'') = ''n1''" "node_id (twin ''n2'') = ''n2''"
    by (simp_all add: twin_def)
  have d: "distinct (map node_id ?K')"
    by (simp add: K' ids)
  have ij: "(0::nat) < 1" "1 < length ?K'"
    by (simp_all add: K')
  have sim: "calculateConceptSimilarity (?K' ! 0) (?K' ! 1) > 0.6"
    by (simp add: K' twin_similarity)
  have none: "filter (connects (node_id (?K' ! 0)) (node_id (?K' ! 1)))
                 (relationships (semantic (memory pair_mgr))) = []"
    by (simp add: pair_mgr_def initializeMemory_def)
  have f: "uuidv4 env0 dr = ''00000000-0000-4000-8000-000000000000''"
    "now env0 = 0" "agentId pair_mgr = ''agent''" for dr
    by (simp_all add: env0_def pair_mgr_def)
  from related_concepts_linked_once [OF d ij sim none, of late_env] show ?thesis
    unfolding K' by (simp add: ids twin_similarity f)
qed
section \<open>Further properties\<close>

lemma bare_wrap: "res_timestamp (wrap l x) = None \<and> res_agentId (wrap l x) = JUndefined"
  by (simp add: wrap_def)

lemma retrieveShortTerm_bare:
  "list_all (\<lambda>r. res_timestamp r = None \<and> res_agentId r = JUndefined) (retrieveShortTerm m query)"
proof -
  have part: "list_all (\<lambda>r. res_timestamp r = None \<and> res_agentId r = JUndefined)
                (if c then map (\<lambda>x. wrap l (f x)) xs else [])" for c l xs and f :: "'a \<Rightarrow> payload"
    by (auto simp: list_all_iff bare_wrap)
  have slot: "list_all (\<lambda>r. res_timestamp r = None \<and> res_agentId r = JUndefined)
     (case v of
         JStr t \<Rightarrow> (if t \<noteq> [] then
                      (case workingMemory (shortTerm m) t of
                         Some v \<Rightarrow> [wrap t v]
                       | None \<Rightarrow> [])
                    else [])
       | _ \<Rightarrow> [])" for v
    by (simp add: bare_wrap split: jsval.split option.split)
  show ?thesis
    unfolding retrieveShortTerm_def list_all_append
    by (intro conjI part slot)
qed

lemma score_of_bare:
  assumes "res_timestamp r = None" "res_agentId r = JUndefined"
  shows "calculateRelevance aid t r query =
     min 1 (0.5 + (if strict_eq (res_type r) (prop_of query ''type'') then 0.3 else 0)
            + 0.1 * real (length (filter (field_matches r query) (query_keys query))))"
  using assms by (simp add: calculateRelevance_def foldl_bonus min.commute)

text \<open>
  On the \<^verbatim>\<open>'short'\<close> branch of \<^verbatim>\<open>retrieve\<close> every candidate is a fresh object
  \<^verbatim>\<open>{data, type}\<close>: it carries neither a timestamp nor an agent id of its own, whatever its
  data holds, so that its score is the base, the type bonus and the field bonuses, capped
  at 1.
\<close>

theorem retrieve_short_scores:
  "\<forall>x\<in>set (retrieve_short e mgr query).
     res_timestamp (ranked_result x) = None
     \<and> res_agentId (ranked_result x) = JUndefined
     \<and> relevanceScore x =
         min 1 (0.5 + (if strict_eq (res_type (ranked_result x)) (prop_of query ''type'') then 0.3 else 0)
                + 0.1 * real (length (filter (field_matches (ranked_result x) query) (query_keys query))))"
proof
  fix x
  assume "x \<in> set (retrieve_short e mgr query)"
  then have "x \<in> set (scored (agentId mgr) (now e) (retrieveShortTerm (memory mgr) query) query)"
    unfolding retrieve_short_def rankByRelevance_def scored_def js_sort_desc_def
    by (auto dest: in_set_takeD)
  then obtain r where r: "r \<in> set (retrieveShortTerm (memory mgr) query)"
    and x: "x = \<lparr> ranked_result = r, relevanceScore = calculateRelevance (agentId mgr) (now e) r query \<rparr>"
    by (auto simp: scored_def)
  from retrieveShortTerm_bare [of "memory mgr" query] r
  have b: "res_timestamp r = None" "res_agentId r = JUndefined"
    by (simp_all add: list_all_iff)
  show "res_timestamp (ranked_result x) = None
     \<and> res_agentId (ranked_result x) = JUndefined
     \<and> relevanceScore x =
         min 1 (0.5 + (if strict_eq (res_type (ranked_result x)) (prop_of query ''type'') then 0.3 else 0)
                + 0.1 * real (length (filter (field_matches (ranked_result x) query) (query_keys query))))"
    by (simp add: x b score_of_bare [OF b])
qed

theorem retrieve_short_scores_witness:
  "retrieve_short env0 acting action_query
     = [\<lparr> ranked_result = wrap ''action'' (PAction action0), relevanceScore = 0.5 \<rparr>]
   \<and> get_prop (PAction action0) ''timestamp'' = JDate 1000
   \<and> get_prop (PAction action0) ''agentId'' = JStr (agentId acting)"
proof -
  have r: "retrieveShortTerm (memory acting) action_query = [wrap ''action'' (PAction action0)]"
    by (simp add: retrieveShortTerm_def acting_def action_query_def prop_of_def initializeMemory_def)
  have l: "retrieve_short env0 acting action_query
     = [\<lparr> ranked_result = wrap ''action'' (PAction action0),
          relevanceScore = calculateRelevance (agentId acting) (now env0)
            (wrap ''action'' (PAction action0)) action_query \<rparr>]"
    by (simp add: retrieve_short_def rankByRelevance_def r js_sort_desc_def)
  have m: "filter (field_matches (wrap ''action'' (PAction action0)) action_query) (query_keys action_query) = []"
    by (simp add: field_matches_def wrap_def action_query_def query_keys_def action0_def prop_of_def)
  from retrieve_short_scores [of env0 acting action_query]
  have "calculateRelevance (agentId acting) (now env0) (wrap ''action'' (PAction action0)) action_query = 0.5"
    unfolding l by (simp add: m) (simp add: wrap_def action_query_def prop_of_def)
  with l show ?thesis
    by (simp add: action0_def acting_def)
qed

lemma ai_words:
  "concept_words ai_automation = [''ai'', ''automation'', ''uses'', ''ai'', ''to'', ''automate'', ''tasks'']"
  "concept_words ai_tooling = [''ai'', ''tooling'', ''ai'', ''based'', ''automation'', ''tooling'']"
  by (simp_all add: concept_words_def ai_automation_def ai_tooling_def toLowerCase_def)

text \<open>
  The two nodes of the scenario of section 8 of the specification (\<^verbatim>\<open>AI automation\<close> with
  \<^verbatim>\<open>uses AI to automate tasks\<close>, and \<^verbatim>\<open>AI tooling\<close> with \<^verbatim>\<open>AI based automation tooling\<close>) share
  two of their eight words: their similarity is 1/4, and \<^verbatim>\<open>consolidate\<close> inserts no
  relationship between them.
\<close>

theorem scenario_nodes_not_similar:
  "calculateConceptSimilarity ai_automation ai_tooling = 1 / 4
   \<and> relationships (semantic (memory (consolidate env0 ai_mgr))) = []"
proof
  show s: "calculateConceptSimilarity ai_automation ai_tooling = 1 / 4"
    by (simp add: calculateConceptSimilarity_def ai_words)
  have n: "nodes_at_linking env0 (memory ai_mgr) = [ai_automation, ai_tooling]"
    by (simp add: nodes_at_linking_no_learnings ai_mgr_def initializeMemory_def)
  have p: "pair_indices (length [ai_automation, ai_tooling]) = [(0, 1)]"
    by (simp add: pair_indices_def eval_nat_numeral upt_rec)
  have r0: "relationships (semantic (memory ai_mgr)) = []"
    by (simp add: ai_mgr_def initializeMemory_def)
  have s1: "link_step env0 (agentId ai_mgr) [ai_automation, ai_tooling] [] (0, 1) = []"
    by (simp add: link_step_eq s)
  show "relationships (semantic (memory (consolidate env0 ai_mgr))) = []"
    unfolding relationships_consolidate n p r0
    by (simp only: foldl.simps s1)
qed

end
